theory Spec2Isabelle
  imports Main "HOL-Library.AList"
begin

section \<open>JavaScript strings and the body encoders\<close>

text \<open>
  A JavaScript string is a sequence of UTF-16 code units, each below 65536. The source
  tests strings for truthiness (the empty string is falsy), trims them and hands them to
  the platform encoders \<^verbatim>\<open>btoa\<close> and \<^verbatim>\<open>encodeURIComponent\<close>, whose
  failures depend on the code units, so strings are lists of code units. Identifiers that
  are only compared (request ids) and the literal texts written to the console are plain
  \<^typ>\<open>string\<close>s.
\<close>

type_synonym jsstring = "nat list"

definition js :: "string \<Rightarrow> jsstring" where
  "js s = map of_char s"

definition truthy :: "jsstring \<Rightarrow> bool" where
  "truthy s = (s \<noteq> [])"

text \<open>\<^verbatim>\<open>x && ...\<close> on a value that is a string or \<^verbatim>\<open>undefined\<close>.\<close>

definition truthy_opt :: "jsstring option \<Rightarrow> bool" where
  "truthy_opt x = (case x of None \<Rightarrow> False | Some s \<Rightarrow> truthy s)"

text \<open>
  \<^verbatim>\<open>String.prototype.trim\<close> removes the code units of ECMAScript's WhiteSpace and
  LineTerminator productions from both ends.
\<close>

definition is_js_space :: "nat \<Rightarrow> bool" where
  "is_js_space c = (c \<in> {9, 10, 11, 12, 13, 32, 160, 5760, 8232, 8233, 8239, 8287, 12288, 65279}
     \<or> (8192 \<le> c \<and> c \<le> 8202))"

definition trim :: "jsstring \<Rightarrow> jsstring" where
  "trim s = rev (dropWhile is_js_space (rev (dropWhile is_js_space s)))"

text \<open>
  \<^verbatim>\<open>unescape(encodeURIComponent(s))\<close>: \<^verbatim>\<open>encodeURIComponent\<close> reads the string
  as UTF-16, throws a URIError at a surrogate that has no partner, and writes the UTF-8
  bytes of every other code point as a \<^verbatim>\<open>%XX\<close> escape or as the ASCII character
  itself; \<^verbatim>\<open>unescape\<close> turns each escape back into the code unit \<^verbatim>\<open>XX\<close>. The
  composition is the string whose code units are the UTF-8 bytes of \<open>s\<close>, or the
  exception (\<open>None\<close>).
\<close>

definition utf8_of_code_point :: "nat \<Rightarrow> nat list" where
  "utf8_of_code_point c =
     (if c < 128 then [c]
      else if c < 2048 then [192 + c div 64, 128 + c mod 64]
      else if c < 65536 then [224 + c div 4096, 128 + (c div 64) mod 64, 128 + c mod 64]
      else [240 + c div 262144, 128 + (c div 4096) mod 64, 128 + (c div 64) mod 64,
            128 + c mod 64])"

definition is_high_surrogate :: "nat \<Rightarrow> bool" where
  "is_high_surrogate c = (55296 \<le> c \<and> c \<le> 56319)"

definition is_low_surrogate :: "nat \<Rightarrow> bool" where
  "is_low_surrogate c = (56320 \<le> c \<and> c \<le> 57343)"

fun unescape_encodeURIComponent :: "jsstring \<Rightarrow> jsstring option" where
  "unescape_encodeURIComponent [] = Some []"
| "unescape_encodeURIComponent [c] =
     (if is_high_surrogate c \<or> is_low_surrogate c then None
      else Some (utf8_of_code_point c))"
| "unescape_encodeURIComponent (c # d # cs) =
     (if is_low_surrogate c then None
      else if is_high_surrogate c then
        (if is_low_surrogate d then
           map_option ((@) (utf8_of_code_point (65536 + (c - 55296) * 1024 + (d - 56320))))
             (unescape_encodeURIComponent cs)
         else None)
      else map_option ((@) (utf8_of_code_point c)) (unescape_encodeURIComponent (d # cs)))"

text \<open>
  \<^verbatim>\<open>btoa(s)\<close> throws an InvalidCharacterError when a code unit of \<open>s\<close> is above 255
  and returns the base64 text of the bytes otherwise.
\<close>

definition base64_digit :: "nat \<Rightarrow> nat" where
  "base64_digit i =
     (if i < 26 then 65 + i
      else if i < 52 then 97 + (i - 26)
      else if i < 62 then 48 + (i - 52)
      else if i = 62 then 43 else 47)"

fun base64 :: "nat list \<Rightarrow> jsstring" where
  "base64 [] = []"
| "base64 [a] = [base64_digit (a div 4), base64_digit ((a mod 4) * 16), 61, 61]"
| "base64 [a, b] =
     [base64_digit (a div 4), base64_digit ((a mod 4) * 16 + b div 16),
      base64_digit ((b mod 16) * 4), 61]"
| "base64 (a # b # c # bs) =
     [base64_digit (a div 4), base64_digit ((a mod 4) * 16 + b div 16),
      base64_digit ((b mod 16) * 4 + c div 64), base64_digit (c mod 64)] @ base64 bs"

definition btoa :: "jsstring \<Rightarrow> jsstring option" where
  "btoa s = (if list_ex (\<lambda>c. 255 < c) s then None else Some (base64 s))"

text \<open>\<^verbatim>\<open>String.prototype.includes\<close>, used on the message of a caught error.\<close>

fun js_includes :: "string \<Rightarrow> string \<Rightarrow> bool" where
  "js_includes [] sub = (sub = [])"
| "js_includes (c # cs) sub = (take (length sub) (c # cs) = sub \<or> js_includes cs sub)"

section \<open>Protocol data\<close>

text \<open>
  A tab id is a number and a request id a string of the protocol. A port is the object
  \<^verbatim>\<open>chrome.runtime.onConnect\<close> hands to the worker, named by a number; it is never
  \<^verbatim>\<open>null\<close> or \<^verbatim>\<open>undefined\<close>, so the guards \<^verbatim>\<open>if (!port)\<close> and
  \<^verbatim>\<open>!tabData.port\<close> of the source never fire and have no branch in the model.
\<close>

type_synonym tabId = int
type_synonym requestId = string
type_synonym port = nat

text \<open>
  A header entry \<^verbatim>\<open>{name, value}\<close>; a property that is missing reads as
  \<^verbatim>\<open>undefined\<close> (\<open>None\<close>). The entries of a header array are objects with string
  properties, so the guards \<^verbatim>\<open>header && typeof header === 'object'\<close> hold of every
  entry; the guards on \<^verbatim>\<open>name\<close> and \<^verbatim>\<open>value\<close> are kept.
\<close>

record header_entry =
  hname :: "jsstring option"
  hvalue :: "jsstring option"

text \<open>
  A header object \<^verbatim>\<open>{key: value}\<close> is the list of its own properties in the order
  \<^verbatim>\<open>Object.entries\<close> enumerates them; its keys are distinct. A value may be
  \<^verbatim>\<open>undefined\<close>.
\<close>

type_synonym header_object = "(jsstring \<times> jsstring option) list"

text \<open>
  The \<^verbatim>\<open>headers\<close> property of a request or of a patch: an array, an object, or
  any other defined value (\<open>HeadersOther\<close>: \<^verbatim>\<open>null\<close>, a string, a number).
\<close>

datatype js_headers =
  HeadersArray "header_entry list"
| HeadersObject header_object
| HeadersOther

record request =
  req_url :: jsstring
  req_method :: jsstring
  req_headers :: "js_headers option"
  req_postData :: "jsstring option"

text \<open>The parameters of \<^verbatim>\<open>Fetch.requestPaused\<close>.\<close>

record pause_params =
  requestId :: requestId
  request :: request
  responseStatusCode :: "int option"
  responseHeaders :: "header_entry list option"
  networkId :: "requestId option"
  resourceType :: "jsstring option"

text \<open>The parameters of \<^verbatim>\<open>Network.responseReceived\<close>.\<close>

record response_meta =
  status :: int
  statusText :: jsstring
  response_headers :: header_object

record response_params =
  rr_requestId :: requestId
  rr_response :: response_meta

section \<open>Messages to the panel\<close>

record response_intercepted =
  ri_requestId :: requestId
  ri_networkId :: "requestId option"
  ri_url :: jsstring
  ri_method :: jsstring
  ri_status :: int
  ri_statusText :: jsstring
  ri_headers :: "header_entry list"
  ri_resourceType :: jsstring
  ri_timestamp :: nat

record request_intercepted =
  qi_requestId :: requestId
  qi_networkId :: "requestId option"
  qi_url :: jsstring
  qi_method :: jsstring
  qi_headers :: header_object
  qi_headersArray :: "header_entry list"
  qi_postData :: "jsstring option"
  qi_resourceType :: jsstring
  qi_timestamp :: nat

record response_body =
  rb_requestId :: requestId
  rb_body :: jsstring
  rb_base64Encoded :: bool
  rb_notAvailable :: bool

datatype message =
  DEBUGGER_ATTACHED tabId
| DEBUGGER_ERROR "string option"
| DEBUGGER_DETACHED string
| RESPONSE_INTERCEPTED response_intercepted
| REQUEST_INTERCEPTED request_intercepted
| RESPONSE_BODY response_body

section \<open>Commands to the debugger\<close>

text \<open>
  The command objects of \<^verbatim>\<open>Fetch.continueRequest\<close> and \<^verbatim>\<open>Fetch.fulfillRequest\<close>
  are built property by property, so every property but the request id is optional in
  the model: \<open>None\<close> is a property the object does not have.
\<close>

record continue_command =
  cc_requestId :: requestId
  cc_url :: "jsstring option"
  cc_method :: "jsstring option"
  cc_headers :: "header_entry list option"
  cc_postData :: "jsstring option"

record fulfill_command =
  fc_requestId :: requestId
  fc_responseCode :: "int option"
  fc_responseHeaders :: "header_entry list option"
  fc_body :: "jsstring option"

datatype cdp_command =
  Network_enable
| Fetch_enable
| Fetch_continueRequest continue_command
| Fetch_fulfillRequest fulfill_command
| Fetch_failRequest requestId jsstring
| Fetch_getResponseBody requestId
| Network_getResponseBody requestId

datatype debugger_call =
  Attach tabId
| Detach tabId
| SendCommand tabId cdp_command

section \<open>The patches of the panel\<close>

record request_modifications =
  qm_url :: "jsstring option"
  qm_method :: "jsstring option"
  qm_headers :: "js_headers option"
  qm_postData :: "jsstring option"

record response_modifications =
  rm_responseCode :: "int option"
  rm_responseHeaders :: "header_entry list option"
  rm_body :: "jsstring option"

section \<open>The service worker's state and its surroundings\<close>

text \<open>
  The three module-level maps of \<^verbatim>\<open>background.js\<close>, and a trace of what the worker
  did to the outside: \<open>sent\<close> lists every call of \<^verbatim>\<open>chrome.debugger\<close> in order,
  \<open>posted\<close> every call of \<^verbatim>\<open>port.postMessage\<close> with its port, \<open>console\<close> the
  first argument of every \<^verbatim>\<open>console.error\<close> and \<^verbatim>\<open>console.warn\<close>. A call is
  listed whether the debugger or the port accepts it or not.
\<close>

record tab_data =
  td_port :: port
  td_target :: tabId

record pending =
  p_tabId :: tabId
  p_params :: pause_params

record request_data =
  rd_data :: request_intercepted
  rd_response :: "response_meta option"

record state =
  attachedTabs :: "tabId \<rightharpoonup> tab_data"
  pendingRequests :: "requestId \<rightharpoonup> pending"
  requestData :: "requestId \<rightharpoonup> request_data"
  sent :: "debugger_call list"
  posted :: "(port \<times> message) list"
  console :: "string list"

text \<open>
  What the surroundings answer while one handler runs: whether a debugger call is
  rejected (with which error), what a body request resolves to, and whether posting to a
  port throws. The handler definitions of the next sections run one handler from its
  call to its end, every awaited debugger call settling at once with the answer of
  \<open>debugger\<close>. The section on the worker with its awaits cuts the handlers at their
  \<^verbatim>\<open>await\<close>s, so that other listeners run in between.
\<close>

record js_error =
  err_message :: "string option"

record env =
  debugger :: "debugger_call \<Rightarrow> js_error option"
  body_result :: "debugger_call \<Rightarrow> jsstring \<times> bool"
  postMessage :: "port \<Rightarrow> js_error option"

definition call :: "env \<Rightarrow> debugger_call \<Rightarrow> state \<Rightarrow> state \<times> js_error option" where
  "call e c s = (s\<lparr>sent := sent s @ [c]\<rparr>, debugger e c)"

definition post :: "env \<Rightarrow> port \<Rightarrow> message \<Rightarrow> state \<Rightarrow> state \<times> js_error option" where
  "post e p m s = (s\<lparr>posted := posted s @ [(p, m)]\<rparr>, postMessage e p)"

definition console_error :: "string \<Rightarrow> state \<Rightarrow> state" where
  "console_error msg s = s\<lparr>console := console s @ [msg]\<rparr>"

text \<open>\<^verbatim>\<open>error.message && error.message.includes('disconnected')\<close>\<close>

definition disconnected :: "js_error \<Rightarrow> bool" where
  "disconnected err =
     (case err_message err of None \<Rightarrow> False
      | Some m \<Rightarrow> m \<noteq> [] \<and> js_includes m ''disconnected'')"

section \<open>Attaching and detaching\<close>

text \<open>The outer \<^verbatim>\<open>catch\<close> of \<^verbatim>\<open>attachDebugger\<close>.\<close>

definition attach_failed :: "env \<Rightarrow> port \<Rightarrow> js_error \<Rightarrow> state \<Rightarrow> state" where
  "attach_failed e p err s =
     fst (post e p (DEBUGGER_ERROR (err_message err))
            (console_error ''Failed to attach debugger:'' s))"

definition attachDebugger :: "env \<Rightarrow> tabId \<Rightarrow> port \<Rightarrow> state \<Rightarrow> state" where
  "attachDebugger e tabId p s =
     (case attachedTabs s tabId of
        Some _ \<Rightarrow>
          (let (s1, thrown) = post e p (DEBUGGER_ATTACHED tabId) s in
           case thrown of
             None \<Rightarrow> s1
           | Some _ \<Rightarrow> s1\<lparr>attachedTabs := (attachedTabs s1)(tabId := None)\<rparr>)
      | None \<Rightarrow>
          (let (s1, r1) = call e (Attach tabId) s in
           case r1 of Some err \<Rightarrow> attach_failed e p err s1
           | None \<Rightarrow>
          (let (s2, r2) = call e (SendCommand tabId Network_enable) s1 in
           case r2 of Some err \<Rightarrow> attach_failed e p err s2
           | None \<Rightarrow>
          (let (s3, r3) = call e (SendCommand tabId Fetch_enable) s2 in
           case r3 of Some err \<Rightarrow> attach_failed e p err s3
           | None \<Rightarrow>
          (let s4 = s3\<lparr>attachedTabs :=
                      (attachedTabs s3)(tabId \<mapsto> \<lparr>td_port = p, td_target = tabId\<rparr>)\<rparr>;
               (s5, thrown) = post e p (DEBUGGER_ATTACHED tabId) s4 in
           case thrown of
             None \<Rightarrow> s5
           | Some perr \<Rightarrow>
               if disconnected perr then
                 (let s6 = s5\<lparr>attachedTabs := (attachedTabs s5)(tabId := None)\<rparr>;
                      (s7, r7) = call e (Detach tabId) s6 in
                  case r7 of None \<Rightarrow> s7 | Some err \<Rightarrow> attach_failed e p err s7)
               else s5)))))"

definition detachDebugger :: "env \<Rightarrow> tabId \<Rightarrow> state \<Rightarrow> state" where
  "detachDebugger e tabId s =
     (case attachedTabs s tabId of
        None \<Rightarrow> s
      | Some _ \<Rightarrow>
          (let (s1, r) = call e (Detach tabId) s in
           case r of
             Some _ \<Rightarrow> console_error ''Failed to detach debugger:'' s1
           | None \<Rightarrow>
               s1\<lparr>attachedTabs := (attachedTabs s1)(tabId := None),
                  pendingRequests := Map.empty,
                  requestData := Map.empty\<rparr>))"

text \<open>The listener of \<^verbatim>\<open>chrome.debugger.onDetach\<close>.\<close>

definition onDetach :: "env \<Rightarrow> tabId \<Rightarrow> string \<Rightarrow> state \<Rightarrow> state" where
  "onDetach e tabId reason s =
     (let s1 = (case attachedTabs s tabId of
                  None \<Rightarrow> s
                | Some tabData \<Rightarrow>
                    (let s' = fst (post e (td_port tabData) (DEBUGGER_DETACHED reason) s) in
                     s'\<lparr>attachedTabs := (attachedTabs s')(tabId := None)\<rparr>))
      in s1\<lparr>pendingRequests := Map.empty, requestData := Map.empty\<rparr>)"

section \<open>Pause events\<close>

definition getStatusText :: "int \<Rightarrow> jsstring" where
  "getStatusText code =
     (if code = 200 then js ''OK''
      else if code = 201 then js ''Created''
      else if code = 204 then js ''No Content''
      else if code = 301 then js ''Moved Permanently''
      else if code = 302 then js ''Found''
      else if code = 304 then js ''Not Modified''
      else if code = 400 then js ''Bad Request''
      else if code = 401 then js ''Unauthorized''
      else if code = 403 then js ''Forbidden''
      else if code = 404 then js ''Not Found''
      else if code = 500 then js ''Internal Server Error''
      else if code = 502 then js ''Bad Gateway''
      else if code = 503 then js ''Service Unavailable''
      else js ''Unknown'')"

text \<open>\<^verbatim>\<open>resourceType || 'other'\<close>\<close>

definition resourceType_or_other :: "jsstring option \<Rightarrow> jsstring" where
  "resourceType_or_other r =
     (case r of None \<Rightarrow> js ''other'' | Some t \<Rightarrow> if truthy t then t else js ''other'')"

text \<open>
  \<^verbatim>\<open>headersObj[name] = value\<close> on a plain object: an own property is overwritten
  where it stands and a new one is enumerated last (a key that is an array index would
  be enumerated before the other keys; no theorem below depends on the order). The key
  \<^verbatim>\<open>__proto__\<close> is the accessor of \<^verbatim>\<open>Object.prototype\<close>, whose setter ignores a
  string, so that assignment leaves the object without the property.
\<close>

definition obj_set :: "header_object \<Rightarrow> jsstring \<Rightarrow> jsstring option \<Rightarrow> header_object" where
  "obj_set obj k v = (if k = js ''__proto__'' then obj else AList.update k v obj)"

text \<open>
  The \<^verbatim>\<open>forEach\<close> loop that builds \<^verbatim>\<open>headersObj\<close> from a header array:
  \<^verbatim>\<open>if (header && typeof header === 'object' && header.name && header.value !== undefined)
    headersObj[header.name] = header.value\<close>
\<close>

definition headersObj_step :: "header_entry \<Rightarrow> header_object \<Rightarrow> header_object" where
  "headersObj_step header obj =
     (case hname header of
        None \<Rightarrow> obj
      | Some n \<Rightarrow> if truthy n \<and> hvalue header \<noteq> None then obj_set obj n (hvalue header) else obj)"

definition headersObj_of_array :: "header_entry list \<Rightarrow> header_object" where
  "headersObj_of_array hs = fold headersObj_step hs []"

text \<open>\<^verbatim>\<open>Object.entries(request.headers).map(([name, value]) => ({ name, value }))\<close>\<close>

definition headersArray_of_object :: "header_object \<Rightarrow> header_entry list" where
  "headersArray_of_object obj = map (\<lambda>(n, v). \<lparr>hname = Some n, hvalue = v\<rparr>) obj"

text \<open>
  The pair \<^verbatim>\<open>(headersObj, headersArray)\<close> of a request interception. With the data
  as typed here nothing in the inner \<^verbatim>\<open>try\<close> throws, so its \<^verbatim>\<open>catch\<close> has no
  branch.
\<close>

definition normalize_headers :: "js_headers option \<Rightarrow> header_object \<times> header_entry list" where
  "normalize_headers h =
     (case h of
        Some (HeadersArray hs) \<Rightarrow> (headersObj_of_array hs, hs)
      | Some (HeadersObject obj) \<Rightarrow> (obj, headersArray_of_object obj)
      | _ \<Rightarrow> ([], []))"

text \<open>The \<^verbatim>\<open>catch\<close> around the two \<^verbatim>\<open>port.postMessage\<close> calls.\<close>

definition port_failed :: "tabId \<Rightarrow> js_error \<Rightarrow> state \<Rightarrow> state" where
  "port_failed tabId err s =
     (if disconnected err then
        (let s1 = console_error ''Port disconnected, cleaning up tab'' s in
         s1\<lparr>attachedTabs := (attachedTabs s1)(tabId := None)\<rparr>)
      else console_error ''Error sending message to port:'' s)"

definition response_event :: "nat \<Rightarrow> pause_params \<Rightarrow> int \<Rightarrow> response_intercepted" where
  "response_event now params code =
     \<lparr>ri_requestId = requestId params,
      ri_networkId = networkId params,
      ri_url = req_url (request params),
      ri_method = req_method (request params),
      ri_status = code,
      ri_statusText = getStatusText code,
      ri_headers = (case responseHeaders params of None \<Rightarrow> [] | Some hs \<Rightarrow> hs),
      ri_resourceType = resourceType_or_other (resourceType params),
      ri_timestamp = now\<rparr>"

definition request_event :: "nat \<Rightarrow> pause_params \<Rightarrow> request_intercepted" where
  "request_event now params =
     (let (headersObj, headersArray) = normalize_headers (req_headers (request params)) in
      \<lparr>qi_requestId = requestId params,
       qi_networkId = networkId params,
       qi_url = req_url (request params),
       qi_method = req_method (request params),
       qi_headers = headersObj,
       qi_headersArray = headersArray,
       qi_postData = req_postData (request params),
       qi_resourceType = resourceType_or_other (resourceType params),
       qi_timestamp = now\<rparr>)"

text \<open>
  The two branches of \<^verbatim>\<open>if (responseStatusCode)\<close>. A status code is an integer or
  missing; the test takes the first branch unless the code is missing
  (\<^verbatim>\<open>undefined\<close>) or 0. \<open>now\<close> is what \<^verbatim>\<open>Date.now()\<close> returns.
\<close>

definition response_interception ::
  "env \<Rightarrow> nat \<Rightarrow> tabId \<Rightarrow> pause_params \<Rightarrow> int \<Rightarrow> port \<Rightarrow> state \<Rightarrow> state" where
  "response_interception e now tabId params code p s =
     (let data = response_event now params code;
          (s1, thrown) = post e p (RESPONSE_INTERCEPTED data) s in
      case thrown of None \<Rightarrow> s1 | Some err \<Rightarrow> port_failed tabId err s1)"

definition request_interception ::
  "env \<Rightarrow> nat \<Rightarrow> tabId \<Rightarrow> pause_params \<Rightarrow> port \<Rightarrow> state \<Rightarrow> state" where
  "request_interception e now tabId params p s =
     (let data = request_event now params;
          s1 = s\<lparr>requestData :=
                 (requestData s)(requestId params \<mapsto> \<lparr>rd_data = data, rd_response = None\<rparr>)\<rparr>;
          (s2, thrown) = post e p (REQUEST_INTERCEPTED data) s1 in
      case thrown of None \<Rightarrow> s2 | Some err \<Rightarrow> port_failed tabId err s2)"

definition handleRequestPaused ::
  "env \<Rightarrow> nat \<Rightarrow> tabId \<Rightarrow> pause_params \<Rightarrow> port \<Rightarrow> state \<Rightarrow> state" where
  "handleRequestPaused e now tabId params p s =
     (let s1 = s\<lparr>pendingRequests :=
                  (pendingRequests s)(requestId params \<mapsto> \<lparr>p_tabId = tabId, p_params = params\<rparr>)\<rparr>
      in case responseStatusCode params of
           None \<Rightarrow> request_interception e now tabId params p s1
         | Some code \<Rightarrow>
             if code \<noteq> 0 then response_interception e now tabId params code p s1
             else request_interception e now tabId params p s1)"

definition handleResponseReceived :: "tabId \<Rightarrow> response_params \<Rightarrow> port \<Rightarrow> state \<Rightarrow> state" where
  "handleResponseReceived tabId params p s =
     (case requestData s (rr_requestId params) of
        None \<Rightarrow> s
      | Some d \<Rightarrow>
          s\<lparr>requestData :=
              (requestData s)(rr_requestId params \<mapsto> d\<lparr>rd_response := Some (rr_response params)\<rparr>)\<rparr>)"

section \<open>Resuming a paused exchange\<close>

text \<open>
  The \<^verbatim>\<open>headers\<close> of a request patch, as \<^verbatim>\<open>continueRequest\<close> converts them:
  an array is filtered, an object becomes the array of its trimmed entries (the
  \<^verbatim>\<open>filter\<close> and the \<^verbatim>\<open>map\<close> of the source in one pass), anything else becomes
  the empty array.
\<close>

definition continue_headers :: "js_headers \<Rightarrow> header_entry list" where
  "continue_headers h =
     (case h of
        HeadersArray hs \<Rightarrow> filter (\<lambda>h. truthy_opt (hname h) \<and> hvalue h \<noteq> None) hs
      | HeadersObject obj \<Rightarrow>
          List.map_filter
            (\<lambda>(n, v). case v of
                 None \<Rightarrow> None
               | Some t \<Rightarrow> if truthy n then Some \<lparr>hname = Some (trim n), hvalue = Some (trim t)\<rparr>
                          else None)
            obj
      | HeadersOther \<Rightarrow> [])"

text \<open>\<^verbatim>\<open>btoa(unescape(encodeURIComponent(text)))\<close>; \<open>None\<close> when it throws.\<close>

definition encode_utf8 :: "jsstring \<Rightarrow> jsstring option" where
  "encode_utf8 text = Option.bind (unescape_encodeURIComponent text) btoa"

text \<open>
  The two nested \<^verbatim>\<open>try\<close> blocks of \<^verbatim>\<open>continueRequest\<close>: the encoded
  \<^verbatim>\<open>postData\<close>, if any, and what was written to the console.
\<close>

definition encode_postData :: "jsstring \<Rightarrow> jsstring option \<times> string list" where
  "encode_postData text =
     (case encode_utf8 text of
        Some b \<Rightarrow> (Some b, [])
      | None \<Rightarrow>
          (case btoa text of
             Some b \<Rightarrow> (Some b, [''Failed to encode postData:''])
           | None \<Rightarrow>
               (None, [''Failed to encode postData:'', ''Failed to base64 encode postData:'',
                       ''Skipping postData due to encoding error''])))"

definition continue_command_of ::
  "requestId \<Rightarrow> request_modifications option \<Rightarrow> continue_command \<times> string list" where
  "continue_command_of rid modifications =
     (case modifications of
        None \<Rightarrow>
          (\<lparr>cc_requestId = rid, cc_url = None, cc_method = None, cc_headers = None,
            cc_postData = None\<rparr>, [])
      | Some m \<Rightarrow>
          (let (body, logs) = (case qm_postData m of None \<Rightarrow> (None, [])
                               | Some text \<Rightarrow> encode_postData text) in
           (\<lparr>cc_requestId = rid,
             cc_url = (if truthy_opt (qm_url m) then qm_url m else None),
             cc_method = (if truthy_opt (qm_method m) then qm_method m else None),
             cc_headers = map_option continue_headers (qm_headers m),
             cc_postData = body\<rparr>, logs)))"

definition continueRequest ::
  "env \<Rightarrow> requestId \<Rightarrow> request_modifications option \<Rightarrow> state \<Rightarrow> state" where
  "continueRequest e rid modifications s =
     (case pendingRequests s rid of
        None \<Rightarrow> console_error ''No pending request found:'' s
      | Some pending \<Rightarrow>
          (let (command, logs) = continue_command_of rid modifications;
               s1 = s\<lparr>console := console s @ logs\<rparr>;
               (s2, r) = call e (SendCommand (p_tabId pending) (Fetch_continueRequest command)) s1
           in case r of
                None \<Rightarrow> s2\<lparr>pendingRequests := (pendingRequests s2)(rid := None)\<rparr>
              | Some _ \<Rightarrow> console_error ''Failed to continue request:'' s2))"

text \<open>
  The body of a response patch: the second \<^verbatim>\<open>btoa\<close> stands in the \<^verbatim>\<open>catch\<close>
  of the first with no \<^verbatim>\<open>try\<close> of its own, so when it throws, the exception
  (\<open>Inl\<close>) leaves the block that builds the command.
\<close>

definition encode_body :: "jsstring \<Rightarrow> unit + jsstring \<times> string list" where
  "encode_body text =
     (case encode_utf8 text of
        Some b \<Rightarrow> Inr (b, [])
      | None \<Rightarrow>
          (case btoa text of
             Some b \<Rightarrow> Inr (b, [''Failed to encode body:''])
           | None \<Rightarrow> Inl ()))"

text \<open>\<open>Inl logs\<close>: an exception was thrown while the command was built.\<close>

definition fulfill_command_of ::
  "requestId \<Rightarrow> pause_params \<Rightarrow> response_modifications option
     \<Rightarrow> string list + fulfill_command \<times> string list" where
  "fulfill_command_of rid params modifications =
     (let command =
        \<lparr>fc_requestId = rid,
         fc_responseCode =
           Some (case responseStatusCode params of
                   None \<Rightarrow> 200 | Some c \<Rightarrow> if c \<noteq> 0 then c else 200),
         fc_responseHeaders =
           Some (case responseHeaders params of None \<Rightarrow> [] | Some hs \<Rightarrow> hs),
         fc_body = None\<rparr>
      in case modifications of
           None \<Rightarrow> Inr (command, [])
         | Some m \<Rightarrow>
             (let c1 = (case rm_responseCode m of
                          None \<Rightarrow> command
                        | Some c \<Rightarrow> if c \<noteq> 0 then command\<lparr>fc_responseCode := Some c\<rparr>
                                   else command);
                  c2 = (case rm_responseHeaders m of
                          None \<Rightarrow> c1
                        | Some hs \<Rightarrow> c1\<lparr>fc_responseHeaders := Some hs\<rparr>)
              in case rm_body m of
                   None \<Rightarrow> Inr (c2, [])
                 | Some text \<Rightarrow>
                     (case encode_body text of
                        Inl _ \<Rightarrow> Inl [''Failed to encode body:'']
                      | Inr (b, logs) \<Rightarrow> Inr (c2\<lparr>fc_body := Some b\<rparr>, logs))))"

definition continueResponse ::
  "env \<Rightarrow> requestId \<Rightarrow> response_modifications option \<Rightarrow> state \<Rightarrow> state" where
  "continueResponse e rid modifications s =
     (case pendingRequests s rid of
        None \<Rightarrow> console_error ''No pending response found:'' s
      | Some pending \<Rightarrow>
          (case fulfill_command_of rid (p_params pending) modifications of
             Inl logs \<Rightarrow>
               console_error ''Failed to continue response:'' (s\<lparr>console := console s @ logs\<rparr>)
           | Inr (command, logs) \<Rightarrow>
               (let s1 = s\<lparr>console := console s @ logs\<rparr>;
                    (s2, r) = call e (SendCommand (p_tabId pending) (Fetch_fulfillRequest command)) s1
                in case r of
                     None \<Rightarrow> s2\<lparr>pendingRequests := (pendingRequests s2)(rid := None)\<rparr>
                   | Some _ \<Rightarrow> console_error ''Failed to continue response:'' s2)))"

definition blockRequest :: "env \<Rightarrow> requestId \<Rightarrow> state \<Rightarrow> state" where
  "blockRequest e rid s =
     (case pendingRequests s rid of
        None \<Rightarrow> console_error ''No pending request found:'' s
      | Some pending \<Rightarrow>
          (let (s1, r) = call e (SendCommand (p_tabId pending)
                                   (Fetch_failRequest rid (js ''BlockedByClient''))) s
           in case r of
                None \<Rightarrow> s1\<lparr>pendingRequests := (pendingRequests s1)(rid := None)\<rparr>
              | Some _ \<Rightarrow> console_error ''Failed to block request:'' s1))"

section \<open>Fetching a response body\<close>

definition body_message :: "env \<Rightarrow> debugger_call \<Rightarrow> requestId \<Rightarrow> message" where
  "body_message e c rid =
     RESPONSE_BODY \<lparr>rb_requestId = rid, rb_body = fst (body_result e c),
                    rb_base64Encoded = snd (body_result e c), rb_notAvailable = False\<rparr>"

text \<open>The outer \<^verbatim>\<open>catch\<close> of \<^verbatim>\<open>getResponseBody\<close>.\<close>

definition body_not_available :: "env \<Rightarrow> requestId \<Rightarrow> port \<Rightarrow> state \<Rightarrow> state" where
  "body_not_available e rid p s =
     (let (s1, thrown) =
            post e p (RESPONSE_BODY \<lparr>rb_requestId = rid, rb_body = [], rb_base64Encoded = False,
                                      rb_notAvailable = True\<rparr>)
              (console_error ''Failed to get response body:'' s)
      in case thrown of
           None \<Rightarrow> s1
         | Some perr \<Rightarrow>
             (case err_message perr of
                None \<Rightarrow> s1
              | Some m \<Rightarrow> if m \<noteq> [] \<and> \<not> js_includes m ''disconnected''
                          then console_error ''Unexpected error:'' s1 else s1))"

text \<open>The fallback to \<^verbatim>\<open>Network.getResponseBody\<close>.\<close>

definition body_fallback :: "env \<Rightarrow> tabId \<Rightarrow> requestId \<Rightarrow> port \<Rightarrow> state \<Rightarrow> state" where
  "body_fallback e tabId rid p s =
     (let c = SendCommand tabId (Network_getResponseBody rid);
          (s1, r) = call e c s in
      case r of
        Some _ \<Rightarrow> body_not_available e rid p s1
      | None \<Rightarrow>
          (let (s2, thrown) = post e p (body_message e c rid) s1 in
           case thrown of
             None \<Rightarrow> s2
           | Some perr \<Rightarrow>
               if disconnected perr
               then console_error ''Port disconnected while sending response body'' s2
               else body_not_available e rid p s2))"

definition getResponseBody :: "env \<Rightarrow> tabId \<Rightarrow> requestId \<Rightarrow> port \<Rightarrow> state \<Rightarrow> state" where
  "getResponseBody e tabId rid p s =
     (let c = SendCommand tabId (Fetch_getResponseBody rid);
          (s1, r) = call e c s in
      case r of
        Some _ \<Rightarrow> body_fallback e tabId rid p s1
      | None \<Rightarrow>
          (let (s2, thrown) = post e p (body_message e c rid) s1 in
           case thrown of
             None \<Rightarrow> s2
           | Some perr \<Rightarrow>
               if disconnected perr
               then console_error ''Port disconnected while sending response body'' s2
               else body_fallback e tabId rid p s2))"

section \<open>The listeners\<close>

text \<open>The messages of the panel, by their \<^verbatim>\<open>type\<close>.\<close>

datatype port_message =
  ATTACH_DEBUGGER tabId
| DETACH_DEBUGGER tabId
| CONTINUE_REQUEST requestId "request_modifications option"
| CONTINUE_RESPONSE requestId "response_modifications option"
| BLOCK_REQUEST requestId
| GET_RESPONSE_BODY tabId requestId
| OTHER_TYPE

datatype debugger_event =
  Fetch_requestPaused pause_params
| Network_responseReceived response_params
| OtherMethod

text \<open>The listener of \<^verbatim>\<open>chrome.debugger.onEvent\<close>.\<close>

definition onEvent :: "env \<Rightarrow> nat \<Rightarrow> tabId \<Rightarrow> debugger_event \<Rightarrow> state \<Rightarrow> state" where
  "onEvent e now tabId ev s =
     (case attachedTabs s tabId of
        None \<Rightarrow> s
      | Some tabData \<Rightarrow>
          (case ev of
             Fetch_requestPaused params \<Rightarrow> handleRequestPaused e now tabId params (td_port tabData) s
           | Network_responseReceived params \<Rightarrow> handleResponseReceived tabId params (td_port tabData) s
           | OtherMethod \<Rightarrow> s))"

text \<open>Everything a listener of the worker is called with.\<close>

datatype input =
  PortMessage port port_message
| DebuggerEvent tabId debugger_event
| DebuggerDetached tabId string

section \<open>The worker with its awaits\<close>

text \<open>
  The listener of \<^verbatim>\<open>port.onMessage\<close> and the handlers it calls are \<^verbatim>\<open>async\<close>
  functions. A call runs up to its first \<^verbatim>\<open>await\<close> of a debugger call and returns;
  what follows the \<^verbatim>\<open>await\<close> runs later, when the debugger has accepted or rejected
  the call, and any other listener may run in between. A continuation names the
  \<^verbatim>\<open>await\<close> a handler is suspended at, with the local variables it still needs.
\<close>

datatype continuation =
  AttachDebugger_attach tabId port
| AttachDebugger_Network_enable tabId port
| AttachDebugger_Fetch_enable tabId port
| AttachDebugger_detach tabId port
| DetachDebugger_detach tabId
| ContinueRequest_sendCommand requestId
| ContinueResponse_sendCommand requestId
| BlockRequest_sendCommand requestId
| GetResponseBody_Fetch tabId requestId port
| GetResponseBody_Network tabId requestId port

text \<open>A debugger call in flight and the continuation that awaits it.\<close>

type_synonym awaited = "debugger_call \<times> continuation"

text \<open>\<^verbatim>\<open>await chrome.debugger...\<close>: the call is made and the handler suspended.\<close>

definition issue :: "debugger_call \<Rightarrow> continuation \<Rightarrow> state \<Rightarrow> state \<times> awaited option" where
  "issue c k s = (s\<lparr>sent := sent s @ [c]\<rparr>, Some (c, k))"

text \<open>
  The synchronous parts of the handlers: from the call to the first \<^verbatim>\<open>await\<close>, or
  to the end where a branch has none.
\<close>

definition begin_attachDebugger :: "env \<Rightarrow> tabId \<Rightarrow> port \<Rightarrow> state \<Rightarrow> state \<times> awaited option" where
  "begin_attachDebugger e tabId p s =
     (case attachedTabs s tabId of
        Some _ \<Rightarrow>
          (let (s1, thrown) = post e p (DEBUGGER_ATTACHED tabId) s in
           case thrown of
             None \<Rightarrow> (s1, None)
           | Some _ \<Rightarrow> (s1\<lparr>attachedTabs := (attachedTabs s1)(tabId := None)\<rparr>, None))
      | None \<Rightarrow> issue (Attach tabId) (AttachDebugger_attach tabId p) s)"

definition begin_detachDebugger :: "tabId \<Rightarrow> state \<Rightarrow> state \<times> awaited option" where
  "begin_detachDebugger tabId s =
     (case attachedTabs s tabId of
        None \<Rightarrow> (s, None)
      | Some _ \<Rightarrow> issue (Detach tabId) (DetachDebugger_detach tabId) s)"

definition begin_continueRequest ::
  "requestId \<Rightarrow> request_modifications option \<Rightarrow> state \<Rightarrow> state \<times> awaited option" where
  "begin_continueRequest rid modifications s =
     (case pendingRequests s rid of
        None \<Rightarrow> (console_error ''No pending request found:'' s, None)
      | Some pending \<Rightarrow>
          (let (command, logs) = continue_command_of rid modifications in
           issue (SendCommand (p_tabId pending) (Fetch_continueRequest command))
             (ContinueRequest_sendCommand rid) (s\<lparr>console := console s @ logs\<rparr>)))"

definition begin_continueResponse ::
  "requestId \<Rightarrow> response_modifications option \<Rightarrow> state \<Rightarrow> state \<times> awaited option" where
  "begin_continueResponse rid modifications s =
     (case pendingRequests s rid of
        None \<Rightarrow> (console_error ''No pending response found:'' s, None)
      | Some pending \<Rightarrow>
          (case fulfill_command_of rid (p_params pending) modifications of
             Inl logs \<Rightarrow>
               (console_error ''Failed to continue response:'' (s\<lparr>console := console s @ logs\<rparr>),
                None)
           | Inr (command, logs) \<Rightarrow>
               issue (SendCommand (p_tabId pending) (Fetch_fulfillRequest command))
                 (ContinueResponse_sendCommand rid) (s\<lparr>console := console s @ logs\<rparr>)))"

definition begin_blockRequest :: "requestId \<Rightarrow> state \<Rightarrow> state \<times> awaited option" where
  "begin_blockRequest rid s =
     (case pendingRequests s rid of
        None \<Rightarrow> (console_error ''No pending request found:'' s, None)
      | Some pending \<Rightarrow>
          issue (SendCommand (p_tabId pending) (Fetch_failRequest rid (js ''BlockedByClient'')))
            (BlockRequest_sendCommand rid) s)"

definition begin_getResponseBody :: "tabId \<Rightarrow> requestId \<Rightarrow> port \<Rightarrow> state \<Rightarrow> state \<times> awaited option" where
  "begin_getResponseBody tabId rid p s =
     issue (SendCommand tabId (Fetch_getResponseBody rid)) (GetResponseBody_Fetch tabId rid p) s"

text \<open>The fallback to \<^verbatim>\<open>Network.getResponseBody\<close>, up to its \<^verbatim>\<open>await\<close>.\<close>

definition begin_body_fallback :: "tabId \<Rightarrow> requestId \<Rightarrow> port \<Rightarrow> state \<Rightarrow> state \<times> awaited option" where
  "begin_body_fallback tabId rid p s =
     issue (SendCommand tabId (Network_getResponseBody rid)) (GetResponseBody_Network tabId rid p) s"

text \<open>
  What runs when the awaited call settles: \<open>r\<close> is \<open>None\<close> when the debugger
  accepted the call and the error when it rejected it. The code runs to the next
  \<^verbatim>\<open>await\<close> or to the end of the handler.
\<close>

definition settle :: "env \<Rightarrow> awaited \<Rightarrow> js_error option \<Rightarrow> state \<Rightarrow> state \<times> awaited option" where
  "settle e a r s =
     (case snd a of
        AttachDebugger_attach tabId p \<Rightarrow>
          (case r of
             Some err \<Rightarrow> (attach_failed e p err s, None)
           | None \<Rightarrow> issue (SendCommand tabId Network_enable) (AttachDebugger_Network_enable tabId p) s)
      | AttachDebugger_Network_enable tabId p \<Rightarrow>
          (case r of
             Some err \<Rightarrow> (attach_failed e p err s, None)
           | None \<Rightarrow> issue (SendCommand tabId Fetch_enable) (AttachDebugger_Fetch_enable tabId p) s)
      | AttachDebugger_Fetch_enable tabId p \<Rightarrow>
          (case r of
             Some err \<Rightarrow> (attach_failed e p err s, None)
           | None \<Rightarrow>
               (let s4 = s\<lparr>attachedTabs :=
                           (attachedTabs s)(tabId \<mapsto> \<lparr>td_port = p, td_target = tabId\<rparr>)\<rparr>;
                    (s5, thrown) = post e p (DEBUGGER_ATTACHED tabId) s4 in
                case thrown of
                  None \<Rightarrow> (s5, None)
                | Some perr \<Rightarrow>
                    if disconnected perr then
                      issue (Detach tabId) (AttachDebugger_detach tabId p)
                        (s5\<lparr>attachedTabs := (attachedTabs s5)(tabId := None)\<rparr>)
                    else (s5, None)))
      | AttachDebugger_detach tabId p \<Rightarrow>
          (case r of None \<Rightarrow> (s, None) | Some err \<Rightarrow> (attach_failed e p err s, None))
      | DetachDebugger_detach tabId \<Rightarrow>
          (case r of
             Some _ \<Rightarrow> (console_error ''Failed to detach debugger:'' s, None)
           | None \<Rightarrow>
               (s\<lparr>attachedTabs := (attachedTabs s)(tabId := None),
                  pendingRequests := Map.empty,
                  requestData := Map.empty\<rparr>, None))
      | ContinueRequest_sendCommand rid \<Rightarrow>
          (case r of
             None \<Rightarrow> (s\<lparr>pendingRequests := (pendingRequests s)(rid := None)\<rparr>, None)
           | Some _ \<Rightarrow> (console_error ''Failed to continue request:'' s, None))
      | ContinueResponse_sendCommand rid \<Rightarrow>
          (case r of
             None \<Rightarrow> (s\<lparr>pendingRequests := (pendingRequests s)(rid := None)\<rparr>, None)
           | Some _ \<Rightarrow> (console_error ''Failed to continue response:'' s, None))
      | BlockRequest_sendCommand rid \<Rightarrow>
          (case r of
             None \<Rightarrow> (s\<lparr>pendingRequests := (pendingRequests s)(rid := None)\<rparr>, None)
           | Some _ \<Rightarrow> (console_error ''Failed to block request:'' s, None))
      | GetResponseBody_Fetch tabId rid p \<Rightarrow>
          (case r of
             Some _ \<Rightarrow> begin_body_fallback tabId rid p s
           | None \<Rightarrow>
               (let (s2, thrown) = post e p (body_message e (fst a) rid) s in
                case thrown of
                  None \<Rightarrow> (s2, None)
                | Some perr \<Rightarrow>
                    if disconnected perr
                    then (console_error ''Port disconnected while sending response body'' s2, None)
                    else begin_body_fallback tabId rid p s2))
      | GetResponseBody_Network tabId rid p \<Rightarrow>
          (case r of
             Some _ \<Rightarrow> (body_not_available e rid p s, None)
           | None \<Rightarrow>
               (let (s2, thrown) = post e p (body_message e (fst a) rid) s in
                case thrown of
                  None \<Rightarrow> (s2, None)
                | Some perr \<Rightarrow>
                    if disconnected perr
                    then (console_error ''Port disconnected while sending response body'' s2, None)
                    else (body_not_available e rid p s2, None))))"

text \<open>
  The synchronous part of a listener. \<^verbatim>\<open>handleRequestPaused\<close>,
  \<^verbatim>\<open>handleResponseReceived\<close> and the listener of \<^verbatim>\<open>onDetach\<close> have no
  \<^verbatim>\<open>await\<close>.
\<close>

definition receive :: "env \<Rightarrow> nat \<Rightarrow> input \<Rightarrow> state \<Rightarrow> state \<times> awaited option" where
  "receive e now i s =
     (case i of
        PortMessage p msg \<Rightarrow>
          (case msg of
             ATTACH_DEBUGGER tabId \<Rightarrow> begin_attachDebugger e tabId p s
           | DETACH_DEBUGGER tabId \<Rightarrow> begin_detachDebugger tabId s
           | CONTINUE_REQUEST rid modifications \<Rightarrow> begin_continueRequest rid modifications s
           | CONTINUE_RESPONSE rid modifications \<Rightarrow> begin_continueResponse rid modifications s
           | BLOCK_REQUEST rid \<Rightarrow> begin_blockRequest rid s
           | GET_RESPONSE_BODY tabId rid \<Rightarrow> begin_getResponseBody tabId rid p s
           | OTHER_TYPE \<Rightarrow> (s, None))
      | DebuggerEvent tabId ev \<Rightarrow> (onEvent e now tabId ev s, None)
      | DebuggerDetached tabId reason \<Rightarrow> (onDetach e tabId reason s, None))"

text \<open>The state of the worker and the debugger calls in flight, oldest first.\<close>

record worker =
  w_state :: state
  w_awaiting :: "awaited list"

text \<open>
  What happens next: a listener is called, or the call in flight at position \<open>n\<close>
  settles. Calls may settle in any order.
\<close>

datatype occurrence =
  Arrives input
| Settles nat "js_error option"

definition await_more :: "awaited list \<Rightarrow> awaited option \<Rightarrow> awaited list" where
  "await_more as a = (case a of None \<Rightarrow> as | Some x \<Rightarrow> as @ [x])"

definition occurs :: "env \<Rightarrow> nat \<Rightarrow> occurrence \<Rightarrow> worker \<Rightarrow> worker" where
  "occurs e now oc w =
     (case oc of
        Arrives i \<Rightarrow>
          (let (s, a) = receive e now i (w_state w) in
           \<lparr>w_state = s, w_awaiting = await_more (w_awaiting w) a\<rparr>)
      | Settles n r \<Rightarrow>
          if n < length (w_awaiting w) then
            (let (s, a) = settle e (w_awaiting w ! n) r (w_state w) in
             \<lparr>w_state = s,
              w_awaiting = await_more (take n (w_awaiting w) @ drop (Suc n) (w_awaiting w)) a\<rparr>)
          else w)"

definition run :: "env \<Rightarrow> nat \<Rightarrow> occurrence list \<Rightarrow> worker \<Rightarrow> worker" where
  "run e now ocs w = fold (occurs e now) ocs w"

text \<open>
  A handler run from its call to its end with nothing in between: each awaited call
  settles at once with the answer of \<open>debugger\<close>, at most \<open>n\<close> times.
\<close>

primrec complete :: "env \<Rightarrow> nat \<Rightarrow> state \<times> awaited option \<Rightarrow> state" where
  "complete e 0 sa = fst sa"
| "complete e (Suc n) sa =
     (case snd sa of
        None \<Rightarrow> fst sa
      | Some a \<Rightarrow> complete e n (settle e a (debugger e (fst a)) (fst sa)))"

section \<open>Vocabulary for the properties of the store\<close>

text \<open>The panel messages that resume or block the exchange \<open>rid\<close>.\<close>

definition resumes :: "port_message \<Rightarrow> requestId \<Rightarrow> bool" where
  "resumes msg rid =
     (case msg of
        CONTINUE_REQUEST r _ \<Rightarrow> r = rid
      | CONTINUE_RESPONSE r _ \<Rightarrow> r = rid
      | BLOCK_REQUEST r \<Rightarrow> r = rid
      | _ \<Rightarrow> False)"

text \<open>The debugger commands that resume or fail the exchange \<open>rid\<close>.\<close>

definition resume_command :: "cdp_command \<Rightarrow> requestId \<Rightarrow> bool" where
  "resume_command c rid =
     (case c of
        Fetch_continueRequest cmd \<Rightarrow> cc_requestId cmd = rid
      | Fetch_fulfillRequest cmd \<Rightarrow> fc_requestId cmd = rid
      | Fetch_failRequest r _ \<Rightarrow> r = rid
      | _ \<Rightarrow> False)"

text \<open>The continuations of the handlers that resume or block the exchange \<open>rid\<close>.\<close>

definition resume_continuation :: "continuation \<Rightarrow> requestId \<Rightarrow> bool" where
  "resume_continuation k rid =
     (case k of
        ContinueRequest_sendCommand r \<Rightarrow> r = rid
      | ContinueResponse_sendCommand r \<Rightarrow> r = rid
      | BlockRequest_sendCommand r \<Rightarrow> r = rid
      | _ \<Rightarrow> False)"

text \<open>The debugger calls that resume or fail the exchange \<open>rid\<close>.\<close>

definition resume_call :: "debugger_call \<Rightarrow> requestId \<Rightarrow> bool" where
  "resume_call c rid = (case c of SendCommand _ cmd \<Rightarrow> resume_command cmd rid | _ \<Rightarrow> False)"

text \<open>A pause event for the exchange \<open>rid\<close> is delivered.\<close>

definition pauses :: "occurrence \<Rightarrow> requestId \<Rightarrow> bool" where
  "pauses oc rid =
     (case oc of
        Arrives (DebuggerEvent _ (Fetch_requestPaused params)) \<Rightarrow> requestId params = rid
      | _ \<Rightarrow> False)"

text \<open>
  What ends a session: a detach event of the debugger, and the moment the debugger
  accepts the detach call that \<^verbatim>\<open>detachDebugger\<close> awaits.
\<close>

definition teardown :: "occurrence \<Rightarrow> worker \<Rightarrow> bool" where
  "teardown oc w =
     (case oc of
        Arrives (DebuggerDetached _ _) \<Rightarrow> True
      | Settles n None \<Rightarrow>
          n < length (w_awaiting w) \<and>
          (case snd (w_awaiting w ! n) of DetachDebugger_detach _ \<Rightarrow> True | _ \<Rightarrow> False)
      | _ \<Rightarrow> False)"

text \<open>
  A call in flight was sent, and a resume handler for \<open>rid\<close> awaits a resume command
  for \<open>rid\<close>. Every worker reached from one with no call in flight is of this kind.
\<close>

definition in_flight_entry :: "state \<Rightarrow> awaited \<Rightarrow> bool" where
  "in_flight_entry s a =
     (fst a \<in> set (sent s) \<and>
      (case snd a of
         ContinueRequest_sendCommand rid \<Rightarrow> resume_call (fst a) rid
       | ContinueResponse_sendCommand rid \<Rightarrow> resume_call (fst a) rid
       | BlockRequest_sendCommand rid \<Rightarrow> resume_call (fst a) rid
       | _ \<Rightarrow> True))"

definition in_flight_ok :: "worker \<Rightarrow> bool" where
  "in_flight_ok w = list_all (in_flight_entry (w_state w)) (w_awaiting w)"

section \<open>Example data\<close>

text \<open>Surroundings that accept every debugger call and every message.\<close>

definition env_ok :: env where
  "env_ok = \<lparr>debugger = (\<lambda>_. None), body_result = (\<lambda>_. ([], False)),
             postMessage = (\<lambda>_. None)\<rparr>"

text \<open>Surroundings whose debugger rejects every call.\<close>

definition env_rejecting :: env where
  "env_rejecting = \<lparr>debugger = (\<lambda>_. Some \<lparr>err_message = Some ''Debugger is not attached''\<rparr>),
                    body_result = (\<lambda>_. ([], False)), postMessage = (\<lambda>_. None)\<rparr>"

definition init_state :: state where
  "init_state = \<lparr>attachedTabs = Map.empty, pendingRequests = Map.empty,
                 requestData = Map.empty, sent = [], posted = [], console = []\<rparr>"

definition get_request :: request where
  "get_request = \<lparr>req_url = js ''https://api.example.com/x'', req_method = js ''GET'',
                  req_headers = None, req_postData = None\<rparr>"

definition header_X_Y :: header_entry where
  "header_X_Y = \<lparr>hname = Some (js ''X''), hvalue = Some (js ''Y'')\<rparr>"

text \<open>A pause of \<^verbatim>\<open>r1\<close> at the request stage.\<close>

definition request_pause :: pause_params where
  "request_pause = \<lparr>requestId = ''r1'', request = get_request, responseStatusCode = None,
                    responseHeaders = None, networkId = None, resourceType = None\<rparr>"

text \<open>A pause of \<^verbatim>\<open>r1\<close> at the response stage, with status 200 and one header.\<close>

definition response_pause :: pause_params where
  "response_pause = request_pause\<lparr>responseStatusCode := Some 200,
                                   responseHeaders := Some [header_X_Y]\<rparr>"

text \<open>A pause that carries the status code 0.\<close>

definition zero_status_pause :: pause_params where
  "zero_status_pause = response_pause\<lparr>responseStatusCode := Some 0\<rparr>"

text \<open>A pause of \<^verbatim>\<open>r2\<close>, for a second tab.\<close>

definition other_pause :: pause_params where
  "other_pause = request_pause\<lparr>requestId := ''r2''\<rparr>"

text \<open>The store holding the one exchange \<open>params\<close>, paused on tab 1.\<close>

definition paused_state :: "pause_params \<Rightarrow> state" where
  "paused_state params =
     init_state\<lparr>attachedTabs := [1 \<mapsto> \<lparr>td_port = 7, td_target = 1\<rparr>],
                pendingRequests := [requestId params \<mapsto> \<lparr>p_tabId = 1, p_params = params\<rparr>]\<rparr>"

text \<open>Tabs 1 and 2 attached, \<^verbatim>\<open>r1\<close> paused on tab 1 and \<^verbatim>\<open>r2\<close> on tab 2.\<close>

definition two_tabs_state :: state where
  "two_tabs_state =
     init_state\<lparr>attachedTabs := [1 \<mapsto> \<lparr>td_port = 7, td_target = 1\<rparr>,
                                 2 \<mapsto> \<lparr>td_port = 8, td_target = 2\<rparr>],
                pendingRequests := [''r1'' \<mapsto> \<lparr>p_tabId = 1, p_params = request_pause\<rparr>,
                                    ''r2'' \<mapsto> \<lparr>p_tabId = 2, p_params = other_pause\<rparr>]\<rparr>"

text \<open>A string that is one high surrogate with no partner (\<^verbatim>\<open>"\uD800"\<close>).\<close>

definition lone_surrogate :: jsstring where
  "lone_surrogate = [55296]"

definition no_request_modifications :: request_modifications where
  "no_request_modifications =
     \<lparr>qm_url = None, qm_method = None, qm_headers = None, qm_postData = None\<rparr>"

definition no_response_modifications :: response_modifications where
  "no_response_modifications =
     \<lparr>rm_responseCode = None, rm_responseHeaders = None, rm_body = None\<rparr>"

text \<open>
  The example store after the request pause of \<^verbatim>\<open>r1\<close> was recorded in
  \<^verbatim>\<open>requestData\<close> as well.
\<close>

definition tracked_state :: state where
  "tracked_state =
     (paused_state request_pause)
       \<lparr>requestData := [''r1'' \<mapsto> \<lparr>rd_data = request_event 0 request_pause,
                                      rd_response = None\<rparr>]\<rparr>"

definition ok_response :: response_params where
  "ok_response = \<lparr>rr_requestId = ''r1'',
                  rr_response = \<lparr>status = 200, statusText = js ''OK'', response_headers = []\<rparr>\<rparr>"

text \<open>The worker before anything happened, and the example stores with no call in flight.\<close>

definition init_worker :: worker where
  "init_worker = \<lparr>w_state = init_state, w_awaiting = []\<rparr>"

definition paused_worker :: "pause_params \<Rightarrow> worker" where
  "paused_worker params = \<lparr>w_state = paused_state params, w_awaiting = []\<rparr>"

text \<open>
  An \<^verbatim>\<open>ATTACH_DEBUGGER\<close> message from port \<open>p\<close> and the three debugger calls of
  \<^verbatim>\<open>attachDebugger\<close> accepted one after the other.
\<close>

definition attach_tab :: "tabId \<Rightarrow> port \<Rightarrow> occurrence list" where
  "attach_tab tabId p =
     [Arrives (PortMessage p (ATTACH_DEBUGGER tabId)), Settles 0 None, Settles 0 None,
      Settles 0 None]"

text \<open>A \<^verbatim>\<open>BLOCK_REQUEST\<close> message for \<^verbatim>\<open>r1\<close> and the command it sends on tab 1.\<close>

definition block_r1 :: occurrence where
  "block_r1 = Arrives (PortMessage 7 (BLOCK_REQUEST ''r1''))"

definition fail_r1 :: debugger_call where
  "fail_r1 = SendCommand 1 (Fetch_failRequest ''r1'' (js ''BlockedByClient''))"

section \<open>Helper lemmas\<close>

lemmas example_defs = env_ok_def env_rejecting_def init_state_def get_request_def header_X_Y_def
  request_pause_def response_pause_def zero_status_pause_def other_pause_def paused_state_def
  two_tabs_state_def lone_surrogate_def no_request_modifications_def
  no_response_modifications_def tracked_state_def ok_response_def
  init_worker_def paused_worker_def attach_tab_def block_r1_def fail_r1_def

lemma posted_port_failed: "posted (port_failed t err s) = posted s"
  by (simp add: port_failed_def console_error_def Let_def)

lemma posted_handleRequestPaused:
  "posted (handleRequestPaused e now tabId params p s) =
     posted s @
       [(p, case responseStatusCode params of
              None \<Rightarrow> REQUEST_INTERCEPTED (request_event now params)
            | Some code \<Rightarrow>
                if code = 0 then REQUEST_INTERCEPTED (request_event now params)
                else RESPONSE_INTERCEPTED (response_event now params code))]"
  by (auto simp: handleRequestPaused_def response_interception_def request_interception_def
        post_def Let_def posted_port_failed split: option.splits)

lemma pending_paused_state:
  "pendingRequests (paused_state params) (requestId params) = Some \<lparr>p_tabId = 1, p_params = params\<rparr>"
  by (simp add: paused_state_def init_state_def)

lemma sent_paused_state: "sent (paused_state params) = []"
  by (simp add: paused_state_def init_state_def)

lemma requestId_examples:
  "requestId request_pause = ''r1''" "requestId response_pause = ''r1''"
  "requestId zero_status_pause = ''r1''"
  by (simp_all add: request_pause_def response_pause_def zero_status_pause_def)

lemma sent_continueRequest:
  "pendingRequests s rid = Some pending \<Longrightarrow>
   sent (continueRequest e rid mods s) =
     sent s @ [SendCommand (p_tabId pending)
                 (Fetch_continueRequest (fst (continue_command_of rid mods)))]"
  by (simp add: continueRequest_def call_def console_error_def Let_def
        split: prod.splits option.splits)

lemma sent_continueResponse:
  "pendingRequests s rid = Some pending \<Longrightarrow>
   sent (continueResponse e rid mods s) =
     (case fulfill_command_of rid (p_params pending) mods of
        Inl _ \<Rightarrow> sent s
      | Inr (cmd, _) \<Rightarrow> sent s @ [SendCommand (p_tabId pending) (Fetch_fulfillRequest cmd)])"
  by (simp add: continueResponse_def call_def console_error_def Let_def
        split: prod.splits option.splits sum.splits)

lemma fulfill_command_of_None:
  "fulfill_command_of rid params None =
     Inr (\<lparr>fc_requestId = rid,
           fc_responseCode = Some (case responseStatusCode params of
                                     None \<Rightarrow> 200 | Some c \<Rightarrow> if c = 0 then 200 else c),
           fc_responseHeaders = Some (case responseHeaders params of None \<Rightarrow> [] | Some hs \<Rightarrow> hs),
           fc_body = None\<rparr>, [])"
  by (simp add: fulfill_command_of_def split: option.splits)

lemma fulfill_command_of_Inl:
  "fulfill_command_of rid params mods = Inl logs \<Longrightarrow>
   \<exists>m t. mods = Some m \<and> rm_body m = Some t \<and> encode_utf8 t = None \<and> btoa t = None"
  by (auto simp: fulfill_command_of_def encode_body_def Let_def
        split: option.splits sum.splits prod.splits if_splits)

lemma fulfill_command_of_Inr:
  "fulfill_command_of rid params mods = Inr (cmd, logs) \<Longrightarrow>
   (\<exists>code hs. fc_responseCode cmd = Some code \<and> fc_responseHeaders cmd = Some hs
      \<and> ((case mods of None \<Rightarrow> True
            | Some m \<Rightarrow> rm_responseCode m = None \<or> rm_responseCode m = Some 0) \<longrightarrow>
           code = (case responseStatusCode params of
                     None \<Rightarrow> 200 | Some c \<Rightarrow> if c = 0 then 200 else c))
      \<and> ((case mods of None \<Rightarrow> True | Some m \<Rightarrow> rm_responseHeaders m = None) \<longrightarrow>
           hs = (case responseHeaders params of None \<Rightarrow> [] | Some h \<Rightarrow> h)))"
  by (auto simp: fulfill_command_of_def encode_body_def Let_def
        split: option.splits sum.splits prod.splits if_splits)

lemma fulfill_command_of_requestId:
  "fulfill_command_of rid params mods = Inr (cmd, logs) \<Longrightarrow> fc_requestId cmd = rid"
  by (auto simp: fulfill_command_of_def encode_body_def Let_def
        split: option.splits sum.splits prod.splits if_splits)

lemma continue_command_of_fields:
  "fst (continue_command_of rid mods) =
     \<lparr>cc_requestId = rid,
      cc_url = (case mods of None \<Rightarrow> None
                | Some m \<Rightarrow> (case qm_url m of None \<Rightarrow> None
                             | Some u \<Rightarrow> if u = [] then None else Some u)),
      cc_method = (case mods of None \<Rightarrow> None
                   | Some m \<Rightarrow> (case qm_method m of None \<Rightarrow> None
                                | Some u \<Rightarrow> if u = [] then None else Some u)),
      cc_headers = (case mods of None \<Rightarrow> None
                    | Some m \<Rightarrow> map_option continue_headers (qm_headers m)),
      cc_postData = (case mods of None \<Rightarrow> None
                     | Some m \<Rightarrow> (case qm_postData m of None \<Rightarrow> None
                                  | Some t \<Rightarrow> (case encode_utf8 t of
                                                 Some b \<Rightarrow> Some b | None \<Rightarrow> btoa t)))\<rparr>"
  by (simp add: continue_command_of_def encode_postData_def truthy_opt_def truthy_def
        split: option.splits prod.splits)

lemma continue_command_of_requestId: "cc_requestId (fst (continue_command_of rid mods)) = rid"
  by (simp add: continue_command_of_def split: option.splits prod.splits)

lemma lone_surrogate_unencodable:
  "encode_utf8 lone_surrogate = None" "btoa lone_surrogate = None"
  by (simp_all add: encode_utf8_def btoa_def lone_surrogate_def is_high_surrogate_def)

text \<open>
  Where the UTF-8 path throws, the string holds a surrogate without its partner, which
  is above 255, so the direct \<^verbatim>\<open>btoa\<close> throws as well.
\<close>

lemma unpaired_surrogate_defeats_both_encodings:
  "unescape_encodeURIComponent t = None \<Longrightarrow> btoa t = None"
  by (induction t rule: unescape_encodeURIComponent.induct)
     (auto simp: btoa_def is_high_surrogate_def is_low_surrogate_def split: if_splits)

lemma update_fresh: "k \<notin> fst ` set al \<Longrightarrow> AList.update k v al = al @ [(k, v)]"
  by (induction al) auto

lemma fold_headersObj_step:
  "distinct (map fst obj) \<Longrightarrow> fst ` set obj \<inter> fst ` set acc = {} \<Longrightarrow>
   fold headersObj_step (headersArray_of_object obj) acc =
     acc @ filter (\<lambda>(k, v). k \<noteq> [] \<and> k \<noteq> js ''__proto__'' \<and> v \<noteq> None) obj"
proof (induction obj arbitrary: acc)
  case Nil
  then show ?case by (simp add: headersArray_of_object_def)
next
  case (Cons kv obj)
  obtain k v where kv: "kv = (k, v)" by (cases kv)
  let ?acc' = "headersObj_step \<lparr>hname = Some k, hvalue = v\<rparr> acc"
  have fresh: "k \<notin> fst ` set acc" using Cons.prems(2) kv by auto
  have step: "?acc' = acc @ filter (\<lambda>(k, v). k \<noteq> [] \<and> k \<noteq> js ''__proto__'' \<and> v \<noteq> None) [kv]"
    using fresh by (simp add: headersObj_step_def obj_set_def truthy_def kv update_fresh)
  have "set ?acc' \<subseteq> insert kv (set acc)"
    unfolding step by auto
  then have keys: "fst ` set ?acc' \<subseteq> insert k (fst ` set acc)"
    using kv by fastforce
  have "k \<notin> fst ` set obj" and "fst ` set obj \<inter> fst ` set acc = {}"
    using Cons.prems kv by auto
  with keys have disjoint: "fst ` set obj \<inter> fst ` set ?acc' = {}"
    by blast
  have "fold headersObj_step (headersArray_of_object (kv # obj)) acc =
          fold headersObj_step (headersArray_of_object obj) ?acc'"
    by (simp add: headersArray_of_object_def kv)
  also have "\<dots> = ?acc' @ filter (\<lambda>(k, v). k \<noteq> [] \<and> k \<noteq> js ''__proto__'' \<and> v \<noteq> None) obj"
    using Cons.IH [OF _ disjoint] Cons.prems(1) by simp
  finally show ?case by (simp add: step)
qed

lemma headers_roundtrip:
  "distinct (map fst obj) \<Longrightarrow>
   headersObj_of_array (headersArray_of_object obj) =
     filter (\<lambda>(k, v). k \<noteq> [] \<and> k \<noteq> js ''__proto__'' \<and> v \<noteq> None) obj"
  using fold_headersObj_step [of obj "[]"] by (simp add: headersObj_of_array_def)

lemma handleResponseReceived_frame:
  "handleResponseReceived tabId params p s =
     s\<lparr>requestData := requestData (handleResponseReceived tabId params p s)\<rparr>"
  by (simp add: handleResponseReceived_def split: option.splits)

lemma continueResponse_requestData:
  "continueResponse e rid mods (s\<lparr>requestData := d\<rparr>) =
     (continueResponse e rid mods s)\<lparr>requestData := d\<rparr>"
  by (simp add: continueResponse_def call_def console_error_def Let_def
        split: option.splits sum.splits prod.splits)

lemma teardown_detachDebugger:
  "attachedTabs s tabId = Some tabData \<Longrightarrow> debugger e (Detach tabId) = None \<Longrightarrow>
   detachDebugger e tabId s =
     s\<lparr>attachedTabs := (attachedTabs s)(tabId := None), pendingRequests := Map.empty,
       requestData := Map.empty, sent := sent s @ [Detach tabId]\<rparr>"
  by (simp add: detachDebugger_def call_def)

lemma maps_onDetach:
  "pendingRequests (onDetach e tabId reason s) = Map.empty"
  "requestData (onDetach e tabId reason s) = Map.empty"
  "attachedTabs (onDetach e tabId reason s) = (attachedTabs s)(tabId := None)"
  "sent (onDetach e tabId reason s) = sent s"
  by (auto simp: onDetach_def post_def Let_def split: option.splits)

lemma two_tabs_detach_1:
  "detachDebugger env_ok 1 two_tabs_state =
     two_tabs_state\<lparr>attachedTabs := (attachedTabs two_tabs_state)(1 := None),
       pendingRequests := Map.empty, requestData := Map.empty,
       sent := sent two_tabs_state @ [Detach 1]\<rparr>"
  by (rule teardown_detachDebugger [where tabData = "\<lparr>td_port = 7, td_target = 1\<rparr>"])
     (simp_all add: two_tabs_state_def init_state_def env_ok_def)

lemma pendingRequests_port_failed: "pendingRequests (port_failed t err s) = pendingRequests s"
  by (simp add: port_failed_def console_error_def Let_def)

lemma pendingRequests_attach_failed: "pendingRequests (attach_failed e p err s) = pendingRequests s"
  by (simp add: attach_failed_def post_def console_error_def)

lemma pendingRequests_body_not_available:
  "pendingRequests (body_not_available e rid p s) = pendingRequests s"
  by (simp add: body_not_available_def post_def console_error_def split: option.splits)

lemma pendingRequests_handleResponseReceived:
  "pendingRequests (handleResponseReceived tabId params p s) = pendingRequests s"
  by (simp add: handleResponseReceived_def split: option.splits)

lemma pendingRequests_handleRequestPaused:
  "pendingRequests (handleRequestPaused e now tabId params p s) =
     (pendingRequests s)(requestId params \<mapsto> \<lparr>p_tabId = tabId, p_params = params\<rparr>)"
  by (simp add: handleRequestPaused_def response_interception_def request_interception_def
        post_def Let_def pendingRequests_port_failed split: option.splits)

lemma pendingRequests_onEvent:
  "pendingRequests s rid = Some pending \<Longrightarrow> pendingRequests (onEvent e now tabId ev s) rid \<noteq> None"
  by (simp add: onEvent_def pendingRequests_handleRequestPaused
        pendingRequests_handleResponseReceived split: option.splits debugger_event.splits)

section \<open>The handlers and the worker with its awaits agree\<close>

text \<open>
  Each handler of the earlier sections is its synchronous part followed by its
  continuations, every awaited call settling at once.
\<close>

lemma complete_awaiting:
  "complete e (Suc n) (s, Some a) = complete e n (settle e a (debugger e (fst a)) s)"
  "complete e n (s, None) = s"
  by (cases n; simp)+

lemma continueRequest_complete:
  "continueRequest e rid mods s = complete e 1 (begin_continueRequest rid mods s)"
  by (simp add: continueRequest_def begin_continueRequest_def issue_def settle_def call_def
        Let_def split: option.splits prod.splits)

lemma continueResponse_complete:
  "continueResponse e rid mods s = complete e 1 (begin_continueResponse rid mods s)"
  by (simp add: continueResponse_def begin_continueResponse_def issue_def settle_def call_def
        Let_def split: option.splits prod.splits sum.splits)

lemma blockRequest_complete:
  "blockRequest e rid s = complete e 1 (begin_blockRequest rid s)"
  by (simp add: blockRequest_def begin_blockRequest_def issue_def settle_def call_def
        Let_def split: option.splits prod.splits)

lemma detachDebugger_complete:
  "detachDebugger e tabId s = complete e 1 (begin_detachDebugger tabId s)"
  by (simp add: detachDebugger_def begin_detachDebugger_def issue_def settle_def call_def
        Let_def split: option.splits prod.splits)

lemma settle_attach:
  "settle e (c, AttachDebugger_attach t p) r s =
     (case r of Some err \<Rightarrow> (attach_failed e p err s, None)
      | None \<Rightarrow> (s\<lparr>sent := sent s @ [SendCommand t Network_enable]\<rparr>,
                 Some (SendCommand t Network_enable, AttachDebugger_Network_enable t p)))"
  "settle e (c, AttachDebugger_Network_enable t p) r s =
     (case r of Some err \<Rightarrow> (attach_failed e p err s, None)
      | None \<Rightarrow> (s\<lparr>sent := sent s @ [SendCommand t Fetch_enable]\<rparr>,
                 Some (SendCommand t Fetch_enable, AttachDebugger_Fetch_enable t p)))"
  "settle e (c, AttachDebugger_detach t p) r s =
     (case r of None \<Rightarrow> (s, None) | Some err \<Rightarrow> (attach_failed e p err s, None))"
  by (simp_all add: settle_def issue_def split: option.splits)

lemma attachDebugger_complete:
  "attachDebugger e tabId p s = complete e 4 (begin_attachDebugger e tabId p s)"
proof (cases "attachedTabs s tabId")
  case (Some tabData)
  then show ?thesis
    by (simp add: attachDebugger_def begin_attachDebugger_def post_def complete_awaiting
          split: option.splits)
next
  case None
  have four: "(4::nat) = Suc (Suc (Suc (Suc 0)))" by simp
  show ?thesis
  proof (cases "debugger e (Attach tabId)")
    case (Some err)
    with None show ?thesis
      by (simp add: attachDebugger_def begin_attachDebugger_def issue_def call_def four
            settle_attach)
  next
    case attached: None
    show ?thesis
    proof (cases "debugger e (SendCommand tabId Network_enable)")
      case (Some err)
      with None attached show ?thesis
        by (simp add: attachDebugger_def begin_attachDebugger_def issue_def call_def four
              settle_attach)
    next
      case network: None
      show ?thesis
      proof (cases "debugger e (SendCommand tabId Fetch_enable)")
        case (Some err)
        with None attached network show ?thesis
          by (simp add: attachDebugger_def begin_attachDebugger_def issue_def call_def four
                settle_attach) (simp add: settle_def)
      next
        case fetch: None
        with None attached network show ?thesis
          by (simp add: attachDebugger_def begin_attachDebugger_def issue_def call_def four
                settle_attach)
             (simp add: settle_def issue_def call_def post_def split: option.splits)
      qed
    qed
  qed
qed

lemma getResponseBody_complete:
  "getResponseBody e tabId rid p s = complete e 2 (begin_getResponseBody tabId rid p s)"
proof -
  have two: "(2::nat) = Suc (Suc 0)" by simp
  show ?thesis
    by (cases "debugger e (SendCommand tabId (Fetch_getResponseBody rid))";
        cases "debugger e (SendCommand tabId (Network_getResponseBody rid))";
        cases "postMessage e p")
       (simp_all add: getResponseBody_def body_fallback_def begin_getResponseBody_def
          begin_body_fallback_def issue_def settle_def call_def post_def Let_def two)
qed

section \<open>Steps of the worker and the exchange store\<close>

lemma sent_onEvent: "sent (onEvent e now tabId ev s) = sent s"
  by (simp add: onEvent_def handleRequestPaused_def response_interception_def
        request_interception_def handleResponseReceived_def post_def port_failed_def
        console_error_def Let_def split: option.splits debugger_event.splits)

lemma sent_attach_failed: "sent (attach_failed e p err s) = sent s"
  by (simp add: attach_failed_def post_def console_error_def)

lemma sent_body_not_available: "sent (body_not_available e rid p s) = sent s"
  by (simp add: body_not_available_def post_def console_error_def split: option.splits)

lemma not_resume_call [simp]:
  "\<not> resume_call (Attach t) rid" "\<not> resume_call (Detach t) rid"
  "\<not> resume_call (SendCommand t Network_enable) rid"
  "\<not> resume_call (SendCommand t Fetch_enable) rid"
  "\<not> resume_call (SendCommand t (Fetch_getResponseBody r)) rid"
  "\<not> resume_call (SendCommand t (Network_getResponseBody r)) rid"
  by (simp_all add: resume_call_def resume_command_def)

lemma resume_call_simps [simp]:
  "resume_call (SendCommand t (Fetch_continueRequest cmd)) rid = (cc_requestId cmd = rid)"
  "resume_call (SendCommand t (Fetch_fulfillRequest fcmd)) rid = (fc_requestId fcmd = rid)"
  "resume_call (SendCommand t (Fetch_failRequest r reason)) rid = (r = rid)"
  by (simp_all add: resume_call_def resume_command_def)

lemma receive_resume:
  assumes stored: "pendingRequests s rid = Some pending" and resumes: "resumes msg rid"
  shows "pendingRequests (fst (receive e now (PortMessage p msg) s)) = pendingRequests s
     \<and> attachedTabs (fst (receive e now (PortMessage p msg) s)) = attachedTabs s
     \<and> ((\<exists>c k. resume_command c rid \<and> resume_continuation k rid
            \<and> sent (fst (receive e now (PortMessage p msg) s))
                = sent s @ [SendCommand (p_tabId pending) c]
            \<and> snd (receive e now (PortMessage p msg) s)
                = Some (SendCommand (p_tabId pending) c, k))
         \<or> (sent (fst (receive e now (PortMessage p msg) s)) = sent s
             \<and> snd (receive e now (PortMessage p msg) s) = None))"
proof (cases msg)
  case (CONTINUE_REQUEST r mods)
  with resumes have r: "r = rid" by (simp add: resumes_def)
  show ?thesis
    using stored continue_command_of_requestId [of rid mods]
    by (auto simp: CONTINUE_REQUEST r receive_def begin_continueRequest_def issue_def
          resume_command_def resume_continuation_def split: prod.splits)
next
  case (CONTINUE_RESPONSE r mods)
  with resumes have r: "r = rid" by (simp add: resumes_def)
  show ?thesis
  proof (cases "fulfill_command_of rid (p_params pending) mods")
    case (Inl logs)
    with stored show ?thesis
      by (simp add: CONTINUE_RESPONSE r receive_def begin_continueResponse_def console_error_def)
  next
    case (Inr built)
    obtain cmd logs where built: "built = (cmd, logs)" by (cases built)
    with Inr fulfill_command_of_requestId [of rid "p_params pending" mods cmd logs]
    have "fc_requestId cmd = rid" by simp
    with stored Inr built show ?thesis
      by (simp add: CONTINUE_RESPONSE r receive_def begin_continueResponse_def issue_def
            resume_command_def resume_continuation_def)
  qed
next
  case (BLOCK_REQUEST r)
  with resumes have r: "r = rid" by (simp add: resumes_def)
  show ?thesis
    using stored
    by (simp add: BLOCK_REQUEST r receive_def begin_blockRequest_def issue_def
          resume_command_def resume_continuation_def)
qed (use resumes in \<open>simp_all add: resumes_def\<close>)

lemma settle_resume:
  assumes "resume_continuation (snd a) rid"
  shows "snd (settle e a r s) = None
     \<and> sent (fst (settle e a r s)) = sent s
     \<and> attachedTabs (fst (settle e a r s)) = attachedTabs s
     \<and> requestData (fst (settle e a r s)) = requestData s
     \<and> pendingRequests (fst (settle e a r s)) =
         (if r = None then (pendingRequests s)(rid := None) else pendingRequests s)"
  using assms
  by (cases "snd a")
     (auto simp: settle_def resume_continuation_def console_error_def split: option.splits)

lemma pendingRequests_begin:
  "pendingRequests (fst (begin_attachDebugger e t p s)) = pendingRequests s"
  "pendingRequests (fst (begin_detachDebugger t s)) = pendingRequests s"
  "pendingRequests (fst (begin_continueRequest r qmods s)) = pendingRequests s"
  "pendingRequests (fst (begin_continueResponse r rmods s)) = pendingRequests s"
  "pendingRequests (fst (begin_blockRequest r s)) = pendingRequests s"
  "pendingRequests (fst (begin_getResponseBody t r p s)) = pendingRequests s"
  "pendingRequests (fst (begin_body_fallback t r p s)) = pendingRequests s"
  by (simp_all add: begin_attachDebugger_def begin_detachDebugger_def begin_continueRequest_def
        begin_continueResponse_def begin_blockRequest_def begin_getResponseBody_def
        begin_body_fallback_def issue_def post_def console_error_def Let_def
        split: option.splits prod.splits sum.splits)

lemma removal_by_receive:
  assumes "pendingRequests s rid = Some pending"
    and "pendingRequests (fst (receive e now i s)) rid = None"
  shows "\<exists>t reason. i = DebuggerDetached t reason"
proof (cases i)
  case (PortMessage p msg)
  with assms show ?thesis
    by (cases msg) (simp_all add: receive_def pendingRequests_begin)
next
  case (DebuggerEvent t ev)
  with assms pendingRequests_onEvent [OF assms(1), of e now t ev] show ?thesis
    by (simp add: receive_def)
next
  case (DebuggerDetached t reason)
  then show ?thesis by simp
qed

lemma removal_by_settle:
  assumes "pendingRequests s rid = Some pending"
    and "pendingRequests (fst (settle e a r s)) rid = None"
  shows "r = None \<and> (resume_continuation (snd a) rid
                      \<or> (case snd a of DetachDebugger_detach _ \<Rightarrow> True | _ \<Rightarrow> False))"
  using assms
  by (cases "snd a")
     (auto simp: settle_def resume_continuation_def issue_def post_def console_error_def
        Let_def pendingRequests_attach_failed pendingRequests_body_not_available
        begin_body_fallback_def
        split: option.splits prod.splits if_splits)

text \<open>What the synchronous part of a listener sends and awaits.\<close>

lemma receive_trace:
  "(sent (fst (receive e now i s)) = sent s \<and> snd (receive e now i s) = None)
   \<or> (\<exists>c k. sent (fst (receive e now i s)) = sent s @ [c]
          \<and> snd (receive e now i s) = Some (c, k)
          \<and> (\<forall>rid. resume_call c rid \<or> resume_continuation k rid \<longrightarrow>
                resume_call c rid \<and> resume_continuation k rid
                \<and> pendingRequests s rid \<noteq> None))"
proof (cases i)
  case (PortMessage p msg)
  show ?thesis
  proof (cases msg)
    case (CONTINUE_REQUEST r mods)
    then show ?thesis
      using continue_command_of_requestId [of r mods]
      by (auto simp: PortMessage receive_def begin_continueRequest_def issue_def
            console_error_def resume_continuation_def split: option.splits prod.splits)
  next
    case (CONTINUE_RESPONSE r mods)
    then show ?thesis
      by (auto simp: PortMessage receive_def begin_continueResponse_def issue_def
            console_error_def resume_continuation_def
            dest: fulfill_command_of_requestId split: option.splits prod.splits sum.splits)
  qed (auto simp: PortMessage receive_def begin_attachDebugger_def begin_detachDebugger_def
         begin_blockRequest_def begin_getResponseBody_def issue_def post_def console_error_def
         resume_continuation_def Let_def split: option.splits)
next
  case (DebuggerEvent t ev)
  then show ?thesis by (simp add: receive_def sent_onEvent)
next
  case (DebuggerDetached t reason)
  then show ?thesis by (simp add: receive_def maps_onDetach)
qed

text \<open>What a continuation sends and awaits: never a resume command.\<close>

lemma settle_trace:
  "(sent (fst (settle e a r s)) = sent s \<and> snd (settle e a r s) = None)
   \<or> (\<exists>c k. sent (fst (settle e a r s)) = sent s @ [c]
          \<and> snd (settle e a r s) = Some (c, k)
          \<and> (\<forall>rid. \<not> resume_call c rid \<and> \<not> resume_continuation k rid))"
  by (cases "snd a")
     (auto simp: settle_def issue_def post_def console_error_def Let_def sent_attach_failed
        sent_body_not_available begin_body_fallback_def resume_continuation_def
        split: option.splits prod.splits)

lemma receive_keeps_absent:
  assumes "pendingRequests s rid = None" and "\<not> pauses (Arrives i) rid"
  shows "pendingRequests (fst (receive e now i s)) rid = None"
proof (cases i)
  case (PortMessage p msg)
  with assms show ?thesis by (cases msg) (simp_all add: receive_def pendingRequests_begin)
next
  case (DebuggerEvent t ev)
  with assms show ?thesis
    by (auto simp: receive_def onEvent_def pauses_def pendingRequests_handleRequestPaused
          pendingRequests_handleResponseReceived split: option.splits debugger_event.splits)
next
  case (DebuggerDetached t reason)
  then show ?thesis by (simp add: receive_def maps_onDetach)
qed

lemma settle_keeps_absent:
  assumes "pendingRequests s rid = None"
  shows "pendingRequests (fst (settle e a r s)) rid = None"
  using assms
  by (cases "snd a")
     (auto simp: settle_def issue_def post_def console_error_def Let_def
        pendingRequests_attach_failed pendingRequests_body_not_available begin_body_fallback_def
        split: option.splits prod.splits)

lemma occurs_keeps_resolved:
  assumes absent: "pendingRequests (w_state w) rid = None" and quiet: "\<not> pauses oc rid"
  shows "pendingRequests (w_state (occurs e now oc w)) rid = None
     \<and> filter (\<lambda>c. resume_call c rid) (sent (w_state (occurs e now oc w)))
         = filter (\<lambda>c. resume_call c rid) (sent (w_state w))"
proof (cases oc)
  case (Arrives i)
  from quiet Arrives have "\<not> pauses (Arrives i) rid" by simp
  from receive_keeps_absent [OF absent this, of e now]
  have kept: "pendingRequests (fst (receive e now i (w_state w))) rid = None" .
  from receive_trace [of e now i "w_state w"] absent
  have "filter (\<lambda>c. resume_call c rid) (sent (fst (receive e now i (w_state w))))
          = filter (\<lambda>c. resume_call c rid) (sent (w_state w))"
    by auto
  with kept show ?thesis by (simp add: Arrives occurs_def case_prod_beta)
next
  case (Settles n r)
  show ?thesis
  proof (cases "n < length (w_awaiting w)")
    case True
    let ?a = "w_awaiting w ! n"
    from settle_keeps_absent [OF absent, of e ?a r]
    have kept: "pendingRequests (fst (settle e ?a r (w_state w))) rid = None" .
    from settle_trace [of e ?a r "w_state w"]
    have "filter (\<lambda>c. resume_call c rid) (sent (fst (settle e ?a r (w_state w))))
            = filter (\<lambda>c. resume_call c rid) (sent (w_state w))"
      by auto
    with kept True show ?thesis by (simp add: Settles occurs_def case_prod_beta)
  next
    case False
    with absent show ?thesis by (simp add: Settles occurs_def)
  qed
qed

lemma run_keeps_resolved:
  assumes "pendingRequests (w_state w) rid = None" and "\<forall>oc \<in> set ocs. \<not> pauses oc rid"
  shows "pendingRequests (w_state (run e now ocs w)) rid = None
     \<and> filter (\<lambda>c. resume_call c rid) (sent (w_state (run e now ocs w)))
         = filter (\<lambda>c. resume_call c rid) (sent (w_state w))"
  using assms
proof (induction ocs arbitrary: w)
  case Nil
  then show ?case by (simp add: run_def)
next
  case (Cons oc ocs)
  from Cons.prems have quiet: "\<not> pauses oc rid" and rest: "\<forall>oc \<in> set ocs. \<not> pauses oc rid"
    by simp_all
  from occurs_keeps_resolved [OF Cons.prems(1) quiet, of e now]
  have absent': "pendingRequests (w_state (occurs e now oc w)) rid = None"
    and sent': "filter (\<lambda>c. resume_call c rid) (sent (w_state (occurs e now oc w)))
         = filter (\<lambda>c. resume_call c rid) (sent (w_state w))"
    by simp_all
  from Cons.IH [OF absent' rest] sent' show ?case by (simp add: run_def)
qed

lemma in_flight_entry_mono:
  "in_flight_entry s a \<Longrightarrow> set (sent s) \<subseteq> set (sent s') \<Longrightarrow> in_flight_entry s' a"
  by (auto simp: in_flight_entry_def)

lemma receive_in_flight:
  "case snd (receive e now i s) of
     None \<Rightarrow> True
   | Some a \<Rightarrow> in_flight_entry (fst (receive e now i s)) a"
proof (cases i)
  case (PortMessage p msg)
  show ?thesis
  proof (cases msg)
    case (CONTINUE_REQUEST r mods)
    then show ?thesis
      using continue_command_of_requestId [of r mods]
      by (auto simp: PortMessage receive_def begin_continueRequest_def issue_def
            console_error_def in_flight_entry_def split: option.splits prod.splits)
  next
    case (CONTINUE_RESPONSE r mods)
    then show ?thesis
      by (auto simp: PortMessage receive_def begin_continueResponse_def issue_def
            console_error_def in_flight_entry_def
            dest: fulfill_command_of_requestId split: option.splits prod.splits sum.splits)
  qed (auto simp: PortMessage receive_def begin_attachDebugger_def begin_detachDebugger_def
         begin_blockRequest_def begin_getResponseBody_def issue_def post_def console_error_def
         in_flight_entry_def Let_def split: option.splits)
next
  case (DebuggerEvent t ev)
  then show ?thesis by (simp add: receive_def)
next
  case (DebuggerDetached t reason)
  then show ?thesis by (simp add: receive_def)
qed

lemma settle_in_flight:
  "case snd (settle e a r s) of
     None \<Rightarrow> True
   | Some a' \<Rightarrow> in_flight_entry (fst (settle e a r s)) a'"
  by (cases "snd a")
     (auto simp: settle_def issue_def post_def console_error_def Let_def
        begin_body_fallback_def in_flight_entry_def
        split: option.splits prod.splits)

lemma sent_grows:
  "set (sent s) \<subseteq> set (sent (fst (receive e now i s)))"
  "set (sent s) \<subseteq> set (sent (fst (settle e a r s)))"
  using receive_trace [of e now i s] settle_trace [of e a r s] by auto

lemma in_flight_await_more:
  "list_all (in_flight_entry s) as \<Longrightarrow>
   (case a of None \<Rightarrow> True | Some x \<Rightarrow> in_flight_entry s x) \<Longrightarrow>
   list_all (in_flight_entry s) (await_more as a)"
  by (cases a) (simp_all add: await_more_def)

lemma in_flight_ok_occurs:
  assumes ok: "in_flight_ok w"
  shows "in_flight_ok (occurs e now oc w)"
proof (cases oc)
  case (Arrives i)
  let ?s' = "fst (receive e now i (w_state w))"
  from ok have "list_all (in_flight_entry ?s') (w_awaiting w)"
    by (auto simp: in_flight_ok_def list_all_iff
          intro: in_flight_entry_mono [OF _ sent_grows(1)])
  from in_flight_await_more [OF this receive_in_flight] show ?thesis
    by (simp add: Arrives occurs_def in_flight_ok_def case_prod_beta)
next
  case (Settles n r)
  show ?thesis
  proof (cases "n < length (w_awaiting w)")
    case True
    let ?s' = "fst (settle e (w_awaiting w ! n) r (w_state w))"
    let ?rest = "take n (w_awaiting w) @ drop (Suc n) (w_awaiting w)"
    have "set ?rest \<subseteq> set (w_awaiting w)"
      by (auto dest: in_set_takeD in_set_dropD)
    with ok have "list_all (in_flight_entry ?s') ?rest"
      by (auto simp: in_flight_ok_def list_all_iff
            intro: in_flight_entry_mono [OF _ sent_grows(2)])
    from in_flight_await_more [OF this settle_in_flight] True show ?thesis
      by (simp add: Settles occurs_def in_flight_ok_def case_prod_beta)
  next
    case False
    with ok show ?thesis by (simp add: Settles occurs_def)
  qed
qed

text \<open>
  A worker with no call in flight is of the kind the theorem on the store asks for, and
  so is every worker reached from it.
\<close>

lemma in_flight_ok_no_calls: "in_flight_ok \<lparr>w_state = s, w_awaiting = []\<rparr>"
  by (simp add: in_flight_ok_def)

lemma in_flight_ok_run: "in_flight_ok w \<Longrightarrow> in_flight_ok (run e now ocs w)"
proof (induction ocs arbitrary: w)
  case Nil
  then show ?case by (simp add: run_def)
next
  case (Cons oc ocs)
  from Cons.IH [OF in_flight_ok_occurs [OF Cons.prems, of e now oc]] show ?case
    by (simp add: run_def)
qed

lemma removal_by_occurs:
  assumes ok: "in_flight_ok w"
    and stored: "pendingRequests (w_state w) rid \<noteq> None"
    and removed: "pendingRequests (w_state (occurs e now oc w)) rid = None"
  shows "teardown oc w
     \<or> (\<exists>n c k. oc = Settles n None \<and> n < length (w_awaiting w) \<and> w_awaiting w ! n = (c, k)
           \<and> resume_continuation k rid \<and> resume_call c rid \<and> c \<in> set (sent (w_state w)))"
proof (cases oc)
  case (Arrives i)
  from stored obtain pending where stored': "pendingRequests (w_state w) rid = Some pending"
    by auto
  from removed Arrives have "pendingRequests (fst (receive e now i (w_state w))) rid = None"
    by (simp add: occurs_def case_prod_beta)
  from removal_by_receive [OF stored' this] Arrives show ?thesis
    by (auto simp: teardown_def)
next
  case (Settles n r)
  from stored obtain pending where stored': "pendingRequests (w_state w) rid = Some pending"
    by auto
  from removed stored Settles have n: "n < length (w_awaiting w)"
    by (auto simp: occurs_def split: if_splits)
  obtain c k where a: "w_awaiting w ! n = (c, k)" by (cases "w_awaiting w ! n")
  from removed Settles n a
  have "pendingRequests (fst (settle e (c, k) r (w_state w))) rid = None"
    by (simp add: occurs_def case_prod_beta)
  from removal_by_settle [OF stored' this]
  have r: "r = None"
    and kind: "resume_continuation k rid
               \<or> (case k of DetachDebugger_detach _ \<Rightarrow> True | _ \<Rightarrow> False)"
    by simp_all
  from ok n a have entry: "in_flight_entry (w_state w) (c, k)"
    by (auto simp: in_flight_ok_def list_all_length)
  from kind show ?thesis
  proof
    assume resume: "resume_continuation k rid"
    with entry have "resume_call c rid" and "c \<in> set (sent (w_state w))"
      by (auto simp: in_flight_entry_def resume_continuation_def split: continuation.splits)
    with resume Settles r n a show ?thesis by simp
  next
    assume "case k of DetachDebugger_detach _ \<Rightarrow> True | _ \<Rightarrow> False"
    with Settles r n a show ?thesis by (simp add: teardown_def)
  qed
qed

lemma block_r1_received:
  "occurs e 0 block_r1 (paused_worker request_pause) =
     \<lparr>w_state = (paused_state request_pause)\<lparr>sent := [fail_r1]\<rparr>,
      w_awaiting = [(fail_r1, BlockRequest_sendCommand ''r1'')]\<rparr>"
  by (simp add: occurs_def block_r1_def fail_r1_def paused_worker_def receive_def
        begin_blockRequest_def issue_def await_more_def paused_state_def init_state_def
        request_pause_def)

lemma block_r1_settled:
  "occurs e 0 (Settles 0 r) (occurs e 0 block_r1 (paused_worker request_pause)) =
     \<lparr>w_state = (if r = None
                  then (paused_state request_pause)\<lparr>sent := [fail_r1], pendingRequests := Map.empty\<rparr>
                  else (paused_state request_pause)
                         \<lparr>sent := [fail_r1], console := [''Failed to block request:'']\<rparr>),
      w_awaiting = []\<rparr>"
  unfolding block_r1_received
  by (simp add: occurs_def settle_def await_more_def console_error_def
        paused_state_def init_state_def request_pause_def split: option.splits)

section \<open>The example stores are stores the worker reaches\<close>

text \<open>
  Attaching tab 1 from port 7 and receiving a pause on it gives the registry and the
  exchange store of \<open>paused_state\<close> with no call in flight; attaching tabs 1 and 2 and
  receiving one pause on each gives those of \<open>two_tabs_state\<close>.
\<close>

lemma maps_handleRequestPaused:
  "attachedTabs (handleRequestPaused env_ok now tabId params p s) = attachedTabs s"
  "pendingRequests (handleRequestPaused env_ok now tabId params p s) =
     (pendingRequests s)(requestId params \<mapsto> \<lparr>p_tabId = tabId, p_params = params\<rparr>)"
  by (simp_all add: handleRequestPaused_def response_interception_def request_interception_def
        post_def env_ok_def Let_def split: option.splits)

lemma attach_tab_run:
  "attachedTabs s tabId = None \<Longrightarrow>
   run env_ok now (attach_tab tabId p) \<lparr>w_state = s, w_awaiting = []\<rparr> =
     \<lparr>w_state =
        s\<lparr>attachedTabs := (attachedTabs s)(tabId \<mapsto> \<lparr>td_port = p, td_target = tabId\<rparr>),
          sent := sent s @ [Attach tabId, SendCommand tabId Network_enable,
                            SendCommand tabId Fetch_enable],
          posted := posted s @ [(p, DEBUGGER_ATTACHED tabId)]\<rparr>,
      w_awaiting = []\<rparr>"
  by (simp add: run_def attach_tab_def occurs_def receive_def begin_attachDebugger_def
        issue_def settle_def await_more_def post_def env_ok_def)

lemma pause_run:
  "attachedTabs s tabId = Some tabData \<Longrightarrow>
   attachedTabs (w_state (occurs env_ok now (Arrives (DebuggerEvent tabId (Fetch_requestPaused params)))
       \<lparr>w_state = s, w_awaiting = []\<rparr>)) = attachedTabs s
   \<and> pendingRequests (w_state (occurs env_ok now (Arrives (DebuggerEvent tabId (Fetch_requestPaused params)))
       \<lparr>w_state = s, w_awaiting = []\<rparr>))
       = (pendingRequests s)(requestId params \<mapsto> \<lparr>p_tabId = tabId, p_params = params\<rparr>)
   \<and> w_awaiting (occurs env_ok now (Arrives (DebuggerEvent tabId (Fetch_requestPaused params)))
       \<lparr>w_state = s, w_awaiting = []\<rparr>) = []"
  by (simp add: occurs_def receive_def onEvent_def await_more_def maps_handleRequestPaused)

lemma paused_state_reached:
  "attachedTabs (w_state (run env_ok now
       (attach_tab 1 7 @ [Arrives (DebuggerEvent 1 (Fetch_requestPaused params))]) init_worker))
     = attachedTabs (paused_state params)
   \<and> pendingRequests (w_state (run env_ok now
       (attach_tab 1 7 @ [Arrives (DebuggerEvent 1 (Fetch_requestPaused params))]) init_worker))
     = pendingRequests (paused_state params)
   \<and> w_awaiting (run env_ok now
       (attach_tab 1 7 @ [Arrives (DebuggerEvent 1 (Fetch_requestPaused params))]) init_worker)
     = []"
proof -
  have "attachedTabs init_state 1 = None" by (simp add: init_state_def)
  from attach_tab_run [OF this, of now 7]
  have attached: "run env_ok now (attach_tab 1 7) init_worker =
     \<lparr>w_state =
        init_state\<lparr>attachedTabs := [1 \<mapsto> \<lparr>td_port = 7, td_target = 1\<rparr>],
          sent := [Attach 1, SendCommand 1 Network_enable, SendCommand 1 Fetch_enable],
          posted := [(7, DEBUGGER_ATTACHED 1)]\<rparr>,
      w_awaiting = []\<rparr>"
    by (simp add: init_worker_def init_state_def)
  have split: "run env_ok now
       (attach_tab 1 7 @ [Arrives (DebuggerEvent 1 (Fetch_requestPaused params))]) init_worker
     = occurs env_ok now (Arrives (DebuggerEvent 1 (Fetch_requestPaused params)))
         (run env_ok now (attach_tab 1 7) init_worker)"
    by (simp add: run_def)
  show ?thesis
    unfolding split attached
    using pause_run [of "init_state\<lparr>attachedTabs := [1 \<mapsto> \<lparr>td_port = 7, td_target = 1\<rparr>],
          sent := [Attach 1, SendCommand 1 Network_enable, SendCommand 1 Fetch_enable],
          posted := [(7, DEBUGGER_ATTACHED 1)]\<rparr>" 1 "\<lparr>td_port = 7, td_target = 1\<rparr>" now params]
    by (simp add: paused_state_def init_state_def)
qed

lemma two_tabs_state_reached:
  "attachedTabs (w_state (run env_ok 0
       (attach_tab 1 7 @ attach_tab 2 8 @
        [Arrives (DebuggerEvent 1 (Fetch_requestPaused request_pause)),
         Arrives (DebuggerEvent 2 (Fetch_requestPaused other_pause))]) init_worker))
     = attachedTabs two_tabs_state
   \<and> pendingRequests (w_state (run env_ok 0
       (attach_tab 1 7 @ attach_tab 2 8 @
        [Arrives (DebuggerEvent 1 (Fetch_requestPaused request_pause)),
         Arrives (DebuggerEvent 2 (Fetch_requestPaused other_pause))]) init_worker))
     = pendingRequests two_tabs_state"
proof -
  let ?s1 = "init_state\<lparr>attachedTabs := [1 \<mapsto> \<lparr>td_port = 7, td_target = 1\<rparr>],
          sent := [Attach 1, SendCommand 1 Network_enable, SendCommand 1 Fetch_enable],
          posted := [(7, DEBUGGER_ATTACHED 1)]\<rparr>"
  have "attachedTabs init_state 1 = None" by (simp add: init_state_def)
  from attach_tab_run [OF this, of 0 7]
  have one: "run env_ok 0 (attach_tab 1 7) init_worker = \<lparr>w_state = ?s1, w_awaiting = []\<rparr>"
    by (simp add: init_worker_def init_state_def)
  have "attachedTabs ?s1 2 = None" by (simp add: init_state_def)
  from attach_tab_run [OF this, of 0 8]
  have two: "run env_ok 0 (attach_tab 2 8) \<lparr>w_state = ?s1, w_awaiting = []\<rparr> =
     \<lparr>w_state =
        ?s1\<lparr>attachedTabs := (attachedTabs ?s1)(2 \<mapsto> \<lparr>td_port = 8, td_target = 2\<rparr>),
          sent := sent ?s1 @ [Attach 2, SendCommand 2 Network_enable, SendCommand 2 Fetch_enable],
          posted := posted ?s1 @ [(8, DEBUGGER_ATTACHED 2)]\<rparr>,
      w_awaiting = []\<rparr>" .
  have split: "run env_ok 0
       (attach_tab 1 7 @ attach_tab 2 8 @
        [Arrives (DebuggerEvent 1 (Fetch_requestPaused request_pause)),
         Arrives (DebuggerEvent 2 (Fetch_requestPaused other_pause))]) init_worker
     = occurs env_ok 0 (Arrives (DebuggerEvent 2 (Fetch_requestPaused other_pause)))
         (occurs env_ok 0 (Arrives (DebuggerEvent 1 (Fetch_requestPaused request_pause)))
            (run env_ok 0 (attach_tab 2 8) (run env_ok 0 (attach_tab 1 7) init_worker)))"
    by (simp add: run_def)
  show ?thesis
    unfolding split one two
    by (simp add: occurs_def receive_def onEvent_def await_more_def maps_handleRequestPaused
          init_state_def)
       (simp add: two_tabs_state_def init_state_def request_pause_def other_pause_def)
qed

section \<open>Classification of pause events (C1)\<close>

text \<open>
  Claim C1, as the code has it. \<^verbatim>\<open>handleRequestPaused\<close> posts exactly one message to
  the port for every pause event. The message is a \<^verbatim>\<open>RESPONSE_INTERCEPTED\<close> event,
  carrying the status code and the text \<^verbatim>\<open>getStatusText\<close> finds for it, exactly when
  the event carries a status code other than 0; when the status code is missing or is 0
  the message is a \<^verbatim>\<open>REQUEST_INTERCEPTED\<close> event. Nothing else of the event, the
  state or the surroundings enters the choice.
\<close>

theorem handleRequestPaused_classification:
  "posted (handleRequestPaused e now tabId params p s) =
     posted s @
       [(p, case responseStatusCode params of
              None \<Rightarrow> REQUEST_INTERCEPTED (request_event now params)
            | Some code \<Rightarrow>
                if code = 0 then REQUEST_INTERCEPTED (request_event now params)
                else RESPONSE_INTERCEPTED (response_event now params code))]
   \<and> ri_status (response_event now params code) = code
   \<and> ri_statusText (response_event now params code) = getStatusText code"
  by (simp add: posted_handleRequestPaused response_event_def)

text \<open>
  The theorem at a response pause with status 200 and at a request pause with no status
  code.
\<close>

theorem handleRequestPaused_classification_witness:
  "posted (handleRequestPaused env_ok 0 1 response_pause 7 init_state) =
     [(7, RESPONSE_INTERCEPTED (response_event 0 response_pause 200))]
   \<and> ri_status (response_event 0 response_pause 200) = 200
   \<and> ri_statusText (response_event 0 response_pause 200) = js ''OK''
   \<and> posted (handleRequestPaused env_ok 0 1 request_pause 7 init_state) =
     [(7, REQUEST_INTERCEPTED (request_event 0 request_pause))]"
  using handleRequestPaused_classification [of env_ok 0 1 response_pause 7 init_state 200]
    handleRequestPaused_classification [of env_ok 0 1 request_pause 7 init_state 200]
  by (simp add: example_defs getStatusText_def)

text \<open>
  Claim C1 as stated fails: a pause event that carries the status code 0 is answered
  with a \<^verbatim>\<open>REQUEST_INTERCEPTED\<close> event, because \<^verbatim>\<open>if (responseStatusCode)\<close>
  tests the code for truthiness.
\<close>

theorem zero_status_classified_as_request:
  "responseStatusCode zero_status_pause = Some 0
   \<and> posted (handleRequestPaused env_ok 0 1 zero_status_pause 7 init_state)
       = [(7, REQUEST_INTERCEPTED (request_event 0 zero_status_pause))]"
  by (simp add: posted_handleRequestPaused) (simp add: example_defs)

section \<open>The fulfill command of continueResponse (C2)\<close>

text \<open>
  Claim C2, as the code has it. For a stored exchange, \<^verbatim>\<open>continueResponse\<close> either
  issues no command (only when the patch has a body that neither encoding accepts) or
  issues one \<^verbatim>\<open>Fetch.fulfillRequest\<close> command, and that command always has a
  \<^verbatim>\<open>responseCode\<close> and a \<^verbatim>\<open>responseHeaders\<close> property. When the patch gives no
  response code (or gives 0), the code is the captured status code if one was captured
  and is not 0, and 200 otherwise; when the patch gives no headers, the headers are the
  captured header list, or the empty list if none was captured. With no patch the
  command is always issued.
\<close>

theorem continueResponse_code_and_headers:
  assumes "pendingRequests s rid = Some pending"
  shows "(sent (continueResponse e rid mods s) = sent s
          \<and> (\<exists>m t. mods = Some m \<and> rm_body m = Some t \<and> encode_utf8 t = None \<and> btoa t = None))
       \<or> (\<exists>cmd code hs.
            sent (continueResponse e rid mods s) =
              sent s @ [SendCommand (p_tabId pending) (Fetch_fulfillRequest cmd)]
            \<and> fc_responseCode cmd = Some code \<and> fc_responseHeaders cmd = Some hs
            \<and> ((case mods of None \<Rightarrow> True
                  | Some m \<Rightarrow> rm_responseCode m = None \<or> rm_responseCode m = Some 0) \<longrightarrow>
                 code = (case responseStatusCode (p_params pending) of
                           None \<Rightarrow> 200 | Some c \<Rightarrow> if c = 0 then 200 else c))
            \<and> ((case mods of None \<Rightarrow> True | Some m \<Rightarrow> rm_responseHeaders m = None) \<longrightarrow>
                 hs = (case responseHeaders (p_params pending) of None \<Rightarrow> [] | Some h \<Rightarrow> h)))"
proof (cases "fulfill_command_of rid (p_params pending) mods")
  case (Inl logs)
  from fulfill_command_of_Inl [OF Inl] sent_continueResponse [OF assms, of e mods] Inl
  show ?thesis by simp
next
  case (Inr r)
  obtain cmd logs where r: "r = (cmd, logs)" by (cases r)
  from Inr r have built: "fulfill_command_of rid (p_params pending) mods = Inr (cmd, logs)"
    by simp
  from sent_continueResponse [OF assms, of e mods] built
  have "sent (continueResponse e rid mods s) =
          sent s @ [SendCommand (p_tabId pending) (Fetch_fulfillRequest cmd)]"
    by simp
  with fulfill_command_of_Inr [OF built] show ?thesis by blast
qed

text \<open>
  The scenario of the specification: no patch, captured status 200 and the one header
  \<^verbatim>\<open>X: Y\<close>.
\<close>

theorem continueResponse_code_and_headers_witness:
  "pendingRequests (paused_state response_pause) ''r1''
     = Some \<lparr>p_tabId = 1, p_params = response_pause\<rparr>
   \<and> sent (continueResponse env_ok ''r1'' None (paused_state response_pause)) =
       [SendCommand 1 (Fetch_fulfillRequest
          \<lparr>fc_requestId = ''r1'', fc_responseCode = Some 200,
           fc_responseHeaders = Some [\<lparr>hname = Some (js ''X''), hvalue = Some (js ''Y'')\<rparr>],
           fc_body = None\<rparr>)]"
proof -
  have stored: "pendingRequests (paused_state response_pause) ''r1''
     = Some \<lparr>p_tabId = 1, p_params = response_pause\<rparr>"
    using pending_paused_state [of response_pause] by (simp add: requestId_examples)
  show ?thesis
    using continueResponse_code_and_headers [OF stored, of env_ok None]
      sent_continueResponse [OF stored, of env_ok None] stored
    by (simp add: fulfill_command_of_None sent_paused_state)
       (simp add: response_pause_def header_X_Y_def)
qed

text \<open>
  Claim C2 as stated fails: an exchange captured with the status code 0 and resumed
  with no patch is fulfilled with the code 200, because
  \<^verbatim>\<open>params.responseStatusCode || 200\<close> replaces every falsy status.
\<close>

theorem zero_status_fulfilled_as_200:
  "pendingRequests (paused_state zero_status_pause) ''r1''
     = Some \<lparr>p_tabId = 1, p_params = zero_status_pause\<rparr>
   \<and> responseStatusCode zero_status_pause = Some 0
   \<and> sent (continueResponse env_ok ''r1'' None (paused_state zero_status_pause)) =
       [SendCommand 1 (Fetch_fulfillRequest
          \<lparr>fc_requestId = ''r1'', fc_responseCode = Some 200,
           fc_responseHeaders = Some [\<lparr>hname = Some (js ''X''), hvalue = Some (js ''Y'')\<rparr>],
           fc_body = None\<rparr>)]"
proof -
  have stored: "pendingRequests (paused_state zero_status_pause) ''r1''
     = Some \<lparr>p_tabId = 1, p_params = zero_status_pause\<rparr>"
    using pending_paused_state [of zero_status_pause] by (simp add: requestId_examples)
  show ?thesis
    using stored sent_continueResponse [OF stored, of env_ok None]
    by (simp add: fulfill_command_of_None sent_paused_state)
       (simp add: zero_status_pause_def response_pause_def header_X_Y_def)
qed

section \<open>The continue command of continueRequest (C3)\<close>

text \<open>
  Claim C3, as the code has it. For a stored exchange, \<^verbatim>\<open>continueRequest\<close> always
  issues one \<^verbatim>\<open>Fetch.continueRequest\<close> command. Besides the request id the command
  has only properties that the patch supplies: \<^verbatim>\<open>url\<close> and \<^verbatim>\<open>method\<close> exactly
  when the patch gives a non-empty one (copied unchanged), \<^verbatim>\<open>headers\<close> exactly when
  the patch gives headers (converted to a filtered array), and \<^verbatim>\<open>postData\<close> exactly
  when the patch gives a body that one of the two encodings accepts (base64-encoded).
\<close>

theorem continueRequest_command_fields:
  assumes "pendingRequests s rid = Some pending"
  shows "\<exists>cmd. sent (continueRequest e rid mods s) =
                 sent s @ [SendCommand (p_tabId pending) (Fetch_continueRequest cmd)]
     \<and> cc_requestId cmd = rid
     \<and> cc_url cmd =
         (case mods of None \<Rightarrow> None
          | Some m \<Rightarrow> (case qm_url m of None \<Rightarrow> None
                       | Some u \<Rightarrow> if u = [] then None else Some u))
     \<and> cc_method cmd =
         (case mods of None \<Rightarrow> None
          | Some m \<Rightarrow> (case qm_method m of None \<Rightarrow> None
                       | Some u \<Rightarrow> if u = [] then None else Some u))
     \<and> cc_headers cmd =
         (case mods of None \<Rightarrow> None | Some m \<Rightarrow> map_option continue_headers (qm_headers m))
     \<and> cc_postData cmd =
         (case mods of None \<Rightarrow> None
          | Some m \<Rightarrow> (case qm_postData m of None \<Rightarrow> None
                       | Some t \<Rightarrow> (case encode_utf8 t of Some b \<Rightarrow> Some b | None \<Rightarrow> btoa t)))"
proof -
  let ?cmd = "fst (continue_command_of rid mods)"
  have "sent (continueRequest e rid mods s) =
          sent s @ [SendCommand (p_tabId pending) (Fetch_continueRequest ?cmd)]"
    by (rule sent_continueRequest [OF assms])
  moreover have "cc_requestId ?cmd = rid" and "cc_url ?cmd = (case mods of None \<Rightarrow> None
          | Some m \<Rightarrow> (case qm_url m of None \<Rightarrow> None
                       | Some u \<Rightarrow> if u = [] then None else Some u))"
    and "cc_method ?cmd = (case mods of None \<Rightarrow> None
          | Some m \<Rightarrow> (case qm_method m of None \<Rightarrow> None
                       | Some u \<Rightarrow> if u = [] then None else Some u))"
    and "cc_headers ?cmd =
         (case mods of None \<Rightarrow> None | Some m \<Rightarrow> map_option continue_headers (qm_headers m))"
    and "cc_postData ?cmd = (case mods of None \<Rightarrow> None
          | Some m \<Rightarrow> (case qm_postData m of None \<Rightarrow> None
                       | Some t \<Rightarrow> (case encode_utf8 t of Some b \<Rightarrow> Some b | None \<Rightarrow> btoa t)))"
    by (simp_all add: continue_command_of_fields)
  ultimately show ?thesis by blast
qed

text \<open>
  The scenario of the specification: the patch \<^verbatim>\<open>{method: "POST"}\<close> on an exchange
  captured with the method GET.
\<close>

theorem continueRequest_command_fields_witness:
  "pendingRequests (paused_state request_pause) ''r1''
     = Some \<lparr>p_tabId = 1, p_params = request_pause\<rparr>
   \<and> req_method (request request_pause) = js ''GET''
   \<and> sent (continueRequest env_ok ''r1''
              (Some (no_request_modifications\<lparr>qm_method := Some (js ''POST'')\<rparr>))
              (paused_state request_pause)) =
       [SendCommand 1 (Fetch_continueRequest
          \<lparr>cc_requestId = ''r1'', cc_url = None, cc_method = Some (js ''POST''),
           cc_headers = None, cc_postData = None\<rparr>)]"
proof -
  have stored: "pendingRequests (paused_state request_pause) ''r1''
     = Some \<lparr>p_tabId = 1, p_params = request_pause\<rparr>"
    using pending_paused_state [of request_pause] by (simp add: requestId_examples)
  from continueRequest_command_fields [OF stored, of env_ok
      "Some (no_request_modifications\<lparr>qm_method := Some (js ''POST'')\<rparr>)"]
  obtain cmd where "sent (continueRequest env_ok ''r1''
              (Some (no_request_modifications\<lparr>qm_method := Some (js ''POST'')\<rparr>))
              (paused_state request_pause)) = [SendCommand 1 (Fetch_continueRequest cmd)]"
    and "cc_requestId cmd = ''r1''" and "cc_url cmd = None"
    and "cc_method cmd = Some (js ''POST'')" and "cc_headers cmd = None"
    and "cc_postData cmd = None"
    by (auto simp: sent_paused_state no_request_modifications_def js_def)
  then have "sent (continueRequest env_ok ''r1''
              (Some (no_request_modifications\<lparr>qm_method := Some (js ''POST'')\<rparr>))
              (paused_state request_pause)) =
       [SendCommand 1 (Fetch_continueRequest
          \<lparr>cc_requestId = ''r1'', cc_url = None, cc_method = Some (js ''POST''),
           cc_headers = None, cc_postData = None\<rparr>)]"
    by (cases cmd) simp
  with stored show ?thesis by (simp add: request_pause_def get_request_def)
qed

text \<open>
  Claim C3 as stated fails: a patch whose only property is a \<^verbatim>\<open>postData\<close> that
  neither encoding accepts yields a command without \<^verbatim>\<open>postData\<close>, so the command
  does not have exactly the properties of the patch.
\<close>

theorem unencodable_postData_omitted:
  "pendingRequests (paused_state request_pause) ''r1''
     = Some \<lparr>p_tabId = 1, p_params = request_pause\<rparr>
   \<and> sent (continueRequest env_ok ''r1''
              (Some (no_request_modifications\<lparr>qm_postData := Some lone_surrogate\<rparr>))
              (paused_state request_pause)) =
       [SendCommand 1 (Fetch_continueRequest
          \<lparr>cc_requestId = ''r1'', cc_url = None, cc_method = None,
           cc_headers = None, cc_postData = None\<rparr>)]"
proof -
  have stored: "pendingRequests (paused_state request_pause) ''r1''
     = Some \<lparr>p_tabId = 1, p_params = request_pause\<rparr>"
    using pending_paused_state [of request_pause] by (simp add: requestId_examples)
  show ?thesis
    using stored sent_continueRequest [OF stored, of env_ok
      "Some (no_request_modifications\<lparr>qm_postData := Some lone_surrogate\<rparr>)"]
    by (simp add: continue_command_of_fields sent_paused_state lone_surrogate_unencodable
          no_request_modifications_def)
qed

section \<open>Removal from the store (C4)\<close>

text \<open>
  Claim C4, as the code has it, on the worker with its awaits. Let every call in flight
  be one the worker sent.
  \<^item> If an occurrence removes the stored exchange \<open>rid\<close>, it is either the end of a
    session (a detach event, or the acceptance of the detach call of
    \<^verbatim>\<open>detachDebugger\<close>), which empties the store with no resume command, or the
    moment the debugger accepts a resume command for \<open>rid\<close> that the worker sent and a
    resume handler for \<open>rid\<close> awaits.
  \<^item> A resume or block message for the stored exchange sends at most one command, a
    resume command for \<open>rid\<close>, awaits it and leaves the store as it is.
  \<^item> When the awaited resume command settles, nothing is sent; the exchange is removed
    if the debugger accepted the command, and the store is unchanged if it rejected it.
  \<^item> Once \<open>rid\<close> is not in the store, it stays out and no resume command for \<open>rid\<close>
    is sent again, whatever arrives and settles, until a pause event for \<open>rid\<close> is
    delivered: no exchange is resolved and then resent.
  \<^item> After the occurrence every call in flight is still one the worker sent.
\<close>

theorem exchange_resolved_once:
  assumes ok: "in_flight_ok w"
  shows "(pendingRequests (w_state w) rid \<noteq> None
            \<and> pendingRequests (w_state (occurs e now oc w)) rid = None \<longrightarrow>
          teardown oc w
          \<or> (\<exists>n c k. oc = Settles n None \<and> n < length (w_awaiting w) \<and> w_awaiting w ! n = (c, k)
               \<and> resume_continuation k rid \<and> resume_call c rid \<and> c \<in> set (sent (w_state w))))
     \<and> (\<forall>p msg pending.
           oc = Arrives (PortMessage p msg) \<and> resumes msg rid
             \<and> pendingRequests (w_state w) rid = Some pending \<longrightarrow>
           pendingRequests (w_state (occurs e now oc w)) = pendingRequests (w_state w)
           \<and> ((\<exists>c k. resume_command c rid \<and> resume_continuation k rid
                 \<and> sent (w_state (occurs e now oc w))
                     = sent (w_state w) @ [SendCommand (p_tabId pending) c]
                 \<and> w_awaiting (occurs e now oc w)
                     = w_awaiting w @ [(SendCommand (p_tabId pending) c, k)])
              \<or> (sent (w_state (occurs e now oc w)) = sent (w_state w)
                  \<and> w_awaiting (occurs e now oc w) = w_awaiting w)))
     \<and> (\<forall>n r c k.
           oc = Settles n r \<and> n < length (w_awaiting w) \<and> w_awaiting w ! n = (c, k)
             \<and> resume_continuation k rid \<longrightarrow>
           sent (w_state (occurs e now oc w)) = sent (w_state w)
           \<and> pendingRequests (w_state (occurs e now oc w)) =
               (if r = None then (pendingRequests (w_state w))(rid := None)
                else pendingRequests (w_state w)))
     \<and> (pendingRequests (w_state w) rid = None \<and> (\<forall>later \<in> set ocs. \<not> pauses later rid) \<longrightarrow>
           pendingRequests (w_state (run e now ocs w)) rid = None
           \<and> filter (\<lambda>c. resume_call c rid) (sent (w_state (run e now ocs w)))
               = filter (\<lambda>c. resume_call c rid) (sent (w_state w)))
     \<and> in_flight_ok (occurs e now oc w)"
proof (intro conjI impI allI)
  assume "pendingRequests (w_state w) rid \<noteq> None
            \<and> pendingRequests (w_state (occurs e now oc w)) rid = None"
  then show "teardown oc w
          \<or> (\<exists>n c k. oc = Settles n None \<and> n < length (w_awaiting w) \<and> w_awaiting w ! n = (c, k)
               \<and> resume_continuation k rid \<and> resume_call c rid \<and> c \<in> set (sent (w_state w)))"
    using removal_by_occurs [OF ok] by blast
next
  fix p msg pending
  assume a: "oc = Arrives (PortMessage p msg) \<and> resumes msg rid
             \<and> pendingRequests (w_state w) rid = Some pending"
  then have oc: "oc = Arrives (PortMessage p msg)" and resumes: "resumes msg rid"
    and stored: "pendingRequests (w_state w) rid = Some pending"
    by simp_all
  note received = receive_resume [OF stored resumes, of e now p]
  from received show "pendingRequests (w_state (occurs e now oc w)) = pendingRequests (w_state w)"
    by (simp add: oc occurs_def case_prod_beta)
  from received
  show "(\<exists>c k. resume_command c rid \<and> resume_continuation k rid
                 \<and> sent (w_state (occurs e now oc w))
                     = sent (w_state w) @ [SendCommand (p_tabId pending) c]
                 \<and> w_awaiting (occurs e now oc w)
                     = w_awaiting w @ [(SendCommand (p_tabId pending) c, k)])
              \<or> (sent (w_state (occurs e now oc w)) = sent (w_state w)
                  \<and> w_awaiting (occurs e now oc w) = w_awaiting w)"
    by (auto simp: oc occurs_def case_prod_beta await_more_def)
next
  fix n r c k
  assume a: "oc = Settles n r \<and> n < length (w_awaiting w) \<and> w_awaiting w ! n = (c, k)
             \<and> resume_continuation k rid"
  then have oc: "oc = Settles n r" and n: "n < length (w_awaiting w)"
    and entry: "w_awaiting w ! n = (c, k)" and "resume_continuation (snd (c, k)) rid"
    by simp_all
  note settled = settle_resume [OF this(4), of e r "w_state w"]
  from settled show "sent (w_state (occurs e now oc w)) = sent (w_state w)"
    by (simp add: oc n entry occurs_def case_prod_beta)
  from settled show "pendingRequests (w_state (occurs e now oc w)) =
               (if r = None then (pendingRequests (w_state w))(rid := None)
                else pendingRequests (w_state w))"
    by (simp add: oc n entry occurs_def case_prod_beta)
next
  assume a: "pendingRequests (w_state w) rid = None \<and> (\<forall>later \<in> set ocs. \<not> pauses later rid)"
  then have absent: "pendingRequests (w_state w) rid = None"
    and quiet: "\<forall>later \<in> set ocs. \<not> pauses later rid"
    by simp_all
  from run_keeps_resolved [OF absent quiet, of e now]
  show "pendingRequests (w_state (run e now ocs w)) rid = None"
    and "filter (\<lambda>c. resume_call c rid) (sent (w_state (run e now ocs w)))
               = filter (\<lambda>c. resume_call c rid) (sent (w_state w))"
    by simp_all
next
  show "in_flight_ok (occurs e now oc w)" by (rule in_flight_ok_occurs [OF ok])
qed

text \<open>
  The theorem at a block message for \<^verbatim>\<open>r1\<close>: one command is sent; a rejection
  leaves the store as it was; an acceptance removes the exchange, and a second block
  message and a continue message for \<^verbatim>\<open>r1\<close> after it send nothing.
\<close>

theorem exchange_resolved_once_witness:
  "in_flight_ok (paused_worker request_pause)
   \<and> pendingRequests (w_state (paused_worker request_pause)) ''r1''
       = Some \<lparr>p_tabId = 1, p_params = request_pause\<rparr>
   \<and> sent (w_state (occurs env_ok 0 block_r1 (paused_worker request_pause))) = [fail_r1]
   \<and> pendingRequests (w_state (run env_ok 0
         [block_r1, Settles 0 (Some \<lparr>err_message = Some ''No tab with given id''\<rparr>)]
         (paused_worker request_pause)))
       = pendingRequests (w_state (paused_worker request_pause))
   \<and> pendingRequests (w_state (run env_ok 0 [block_r1, Settles 0 None]
         (paused_worker request_pause))) ''r1'' = None
   \<and> filter (\<lambda>c. resume_call c ''r1'')
        (sent (w_state (run env_ok 0
           [block_r1, Arrives (PortMessage 7 (CONTINUE_REQUEST ''r1'' None))]
           (run env_ok 0 [block_r1, Settles 0 None] (paused_worker request_pause)))))
       = [fail_r1]"
proof -
  let ?w0 = "paused_worker request_pause"
  let ?w1 = "occurs env_ok 0 block_r1 ?w0"
  let ?w2 = "run env_ok 0 [block_r1, Settles 0 None] ?w0"
  let ?err = "Some \<lparr>err_message = Some ''No tab with given id''\<rparr>"
  have ok0: "in_flight_ok ?w0"
    by (simp add: in_flight_ok_def paused_worker_def)
  have stored: "pendingRequests (w_state ?w0) ''r1''
       = Some \<lparr>p_tabId = 1, p_params = request_pause\<rparr>"
    using pending_paused_state [of request_pause]
    by (simp add: paused_worker_def requestId_examples)
  have sent1: "sent (w_state ?w1) = [fail_r1]"
    by (simp add: block_r1_received)
  have ok1: "in_flight_ok ?w1"
    using exchange_resolved_once [OF ok0, of "''r1''" env_ok 0 block_r1 "[]"] by simp
  have entry: "w_awaiting ?w1 ! 0 = (fail_r1, BlockRequest_sendCommand ''r1'')"
    and len: "0 < length (w_awaiting ?w1)"
    and kind: "resume_continuation (BlockRequest_sendCommand ''r1'') ''r1''"
    by (simp_all add: block_r1_received resume_continuation_def)
  have pending1: "pendingRequests (w_state ?w1) = pendingRequests (w_state ?w0)"
    unfolding block_r1_received by (simp add: paused_worker_def)
  from exchange_resolved_once [OF ok1, of "''r1''" env_ok 0 "Settles 0 ?err" "[]"]
    entry len kind
  have rejected: "pendingRequests (w_state (occurs env_ok 0 (Settles 0 ?err) ?w1))
      = pendingRequests (w_state ?w1)"
    by simp
  from exchange_resolved_once [OF ok1, of "''r1''" env_ok 0 "Settles 0 None" "[]"]
    entry len kind
  have accepted: "pendingRequests (w_state (occurs env_ok 0 (Settles 0 None) ?w1))
      = (pendingRequests (w_state ?w1))(''r1'' := None)"
    and ok2: "in_flight_ok (occurs env_ok 0 (Settles 0 None) ?w1)"
    by simp_all
  have w2: "?w2 = occurs env_ok 0 (Settles 0 None) ?w1"
    by (simp add: run_def)
  from accepted have absent: "pendingRequests (w_state ?w2) ''r1'' = None"
    by (simp add: w2)
  have quiet: "\<forall>later \<in> set [block_r1, Arrives (PortMessage 7 (CONTINUE_REQUEST ''r1'' None))].
      \<not> pauses later ''r1''"
    by (simp add: pauses_def block_r1_def)
  from exchange_resolved_once [OF ok2 [folded w2], of "''r1''" env_ok 0 block_r1
        "[block_r1, Arrives (PortMessage 7 (CONTINUE_REQUEST ''r1'' None))]"]
    absent quiet
  have "filter (\<lambda>c. resume_call c ''r1'')
        (sent (w_state (run env_ok 0
           [block_r1, Arrives (PortMessage 7 (CONTINUE_REQUEST ''r1'' None))] ?w2)))
       = filter (\<lambda>c. resume_call c ''r1'') (sent (w_state ?w2))"
    by blast
  also have "\<dots> = [fail_r1]"
    by (simp add: w2 block_r1_settled) (simp add: fail_r1_def)
  finally have once: "filter (\<lambda>c. resume_call c ''r1'')
        (sent (w_state (run env_ok 0
           [block_r1, Arrives (PortMessage 7 (CONTINUE_REQUEST ''r1'' None))] ?w2)))
       = [fail_r1]" .
  have run_rejected: "run env_ok 0 [block_r1, Settles 0 ?err] ?w0
      = occurs env_ok 0 (Settles 0 ?err) ?w1"
    by (simp add: run_def)
  from ok0 stored sent1 rejected pending1 absent once show ?thesis
    by (simp add: run_rejected)
qed

text \<open>
  Claim C4 as stated fails: a detach event removes the stored exchange \<^verbatim>\<open>r1\<close>
  although no resume command was dispatched for it and none is in flight.
\<close>

theorem exchange_discarded_without_resume:
  "pendingRequests (w_state (paused_worker request_pause)) ''r1''
     = Some \<lparr>p_tabId = 1, p_params = request_pause\<rparr>
   \<and> pendingRequests (w_state (occurs env_ok 0 (Arrives (DebuggerDetached 1 ''target_closed''))
        (paused_worker request_pause))) ''r1'' = None
   \<and> sent (w_state (occurs env_ok 0 (Arrives (DebuggerDetached 1 ''target_closed''))
        (paused_worker request_pause))) = []
   \<and> w_awaiting (occurs env_ok 0 (Arrives (DebuggerDetached 1 ''target_closed''))
        (paused_worker request_pause)) = []"
  using pending_paused_state [of request_pause]
  by (simp add: requestId_examples occurs_def receive_def maps_onDetach sent_paused_state
        paused_worker_def await_more_def)

text \<open>
  The theorem says nothing of a resume message that arrives while an earlier one for the
  same exchange still awaits the debugger. The listener does not wait for the handler,
  and \<^verbatim>\<open>pendingRequests.delete\<close> stands after the \<^verbatim>\<open>await\<close>, so the second
  message finds the exchange and sends a second command.
\<close>

lemma overlapping_resumes_send_twice:
  "sent (w_state (run e 0 [block_r1, block_r1] (paused_worker request_pause)))
     = [fail_r1, fail_r1]
   \<and> w_awaiting (run e 0 [block_r1, block_r1] (paused_worker request_pause))
     = [(fail_r1, BlockRequest_sendCommand ''r1''), (fail_r1, BlockRequest_sendCommand ''r1'')]"
  by (simp add: run_def block_r1_received)
     (simp add: occurs_def block_r1_def fail_r1_def receive_def begin_blockRequest_def
        issue_def await_more_def paused_state_def init_state_def request_pause_def)

section \<open>A body that cannot be encoded (C5)\<close>

text \<open>
  Claim C5 on the code. For the body \<^verbatim>\<open>"\uD800"\<close> both encodings throw. On a stored
  exchange \<^verbatim>\<open>continueResponse\<close> then issues no command at all, writes
  \<^verbatim>\<open>Failed to encode body:\<close> and \<^verbatim>\<open>Failed to continue response:\<close> to the console
  and leaves the exchange in the store, while \<^verbatim>\<open>continueRequest\<close> with the same text
  as \<^verbatim>\<open>postData\<close> issues its command without the property.
\<close>

theorem continueResponse_unencodable_body_drops_command:
  "encode_utf8 lone_surrogate = None \<and> btoa lone_surrogate = None
   \<and> pendingRequests (paused_state response_pause) ''r1''
       = Some \<lparr>p_tabId = 1, p_params = response_pause\<rparr>
   \<and> sent (continueResponse env_ok ''r1''
              (Some (no_response_modifications\<lparr>rm_body := Some lone_surrogate\<rparr>))
              (paused_state response_pause)) = []
   \<and> console (continueResponse env_ok ''r1''
              (Some (no_response_modifications\<lparr>rm_body := Some lone_surrogate\<rparr>))
              (paused_state response_pause))
       = [''Failed to encode body:'', ''Failed to continue response:'']
   \<and> pendingRequests (continueResponse env_ok ''r1''
              (Some (no_response_modifications\<lparr>rm_body := Some lone_surrogate\<rparr>))
              (paused_state response_pause)) ''r1''
       = Some \<lparr>p_tabId = 1, p_params = response_pause\<rparr>
   \<and> sent (continueRequest env_ok ''r1''
              (Some (no_request_modifications\<lparr>qm_postData := Some lone_surrogate\<rparr>))
              (paused_state response_pause)) =
       [SendCommand 1 (Fetch_continueRequest
          \<lparr>cc_requestId = ''r1'', cc_url = None, cc_method = None,
           cc_headers = None, cc_postData = None\<rparr>)]"
proof -
  have stored: "pendingRequests (paused_state response_pause) ''r1''
     = Some \<lparr>p_tabId = 1, p_params = response_pause\<rparr>"
    using pending_paused_state [of response_pause] by (simp add: requestId_examples)
  have built: "fulfill_command_of ''r1'' response_pause
      (Some (no_response_modifications\<lparr>rm_body := Some lone_surrogate\<rparr>))
      = Inl [''Failed to encode body:'']"
    by (simp add: fulfill_command_of_def encode_body_def lone_surrogate_unencodable
          no_response_modifications_def Let_def)
  have response: "continueResponse env_ok ''r1''
      (Some (no_response_modifications\<lparr>rm_body := Some lone_surrogate\<rparr>))
      (paused_state response_pause)
      = (paused_state response_pause)
          \<lparr>console := [''Failed to encode body:'', ''Failed to continue response:'']\<rparr>"
    using stored
    by (simp add: continueResponse_def built console_error_def paused_state_def init_state_def)
  have request: "sent (continueRequest env_ok ''r1''
              (Some (no_request_modifications\<lparr>qm_postData := Some lone_surrogate\<rparr>))
              (paused_state response_pause)) =
       [SendCommand 1 (Fetch_continueRequest
          \<lparr>cc_requestId = ''r1'', cc_url = None, cc_method = None,
           cc_headers = None, cc_postData = None\<rparr>)]"
    using sent_continueRequest [OF stored, of env_ok
      "Some (no_request_modifications\<lparr>qm_postData := Some lone_surrogate\<rparr>)"]
    by (simp add: continue_command_of_fields sent_paused_state lone_surrogate_unencodable
          no_request_modifications_def)
  show ?thesis
    using stored request by (simp add: response lone_surrogate_unencodable sent_paused_state)
qed

section \<open>Commands for an exchange that is not stored (C6)\<close>

text \<open>
  Claim C6. When the request id is not in \<^verbatim>\<open>pendingRequests\<close>, each of
  \<^verbatim>\<open>continueRequest\<close>, \<^verbatim>\<open>continueResponse\<close> and \<^verbatim>\<open>blockRequest\<close> returns the
  state it was given with one more console line: no debugger call is made, no message
  is posted and no map changes. The handlers have no exit by exception in that branch.
\<close>

theorem resume_of_unknown_exchange_is_noop:
  assumes "pendingRequests s rid = None"
  shows "continueRequest e rid qmods s = s\<lparr>console := console s @ [''No pending request found:'']\<rparr>
     \<and> continueResponse e rid rmods s = s\<lparr>console := console s @ [''No pending response found:'']\<rparr>
     \<and> blockRequest e rid s = s\<lparr>console := console s @ [''No pending request found:'']\<rparr>"
  using assms by (simp add: continueRequest_def continueResponse_def blockRequest_def console_error_def)

text \<open>
  The theorem at the id \<^verbatim>\<open>r9\<close>, which the example store does not hold.
\<close>

theorem resume_of_unknown_exchange_is_noop_witness:
  "pendingRequests (paused_state request_pause) ''r9'' = None
   \<and> sent (blockRequest env_ok ''r9'' (paused_state request_pause)) = []
   \<and> console (blockRequest env_ok ''r9'' (paused_state request_pause)) = [''No pending request found:'']
   \<and> pendingRequests (blockRequest env_ok ''r9'' (paused_state request_pause))
       = pendingRequests (paused_state request_pause)
   \<and> sent (continueRequest env_ok ''r9'' None (paused_state request_pause)) = []
   \<and> sent (continueResponse env_ok ''r9'' None (paused_state request_pause)) = []"
proof -
  have absent: "pendingRequests (paused_state request_pause) ''r9'' = None"
    by (simp add: paused_state_def init_state_def request_pause_def)
  from resume_of_unknown_exchange_is_noop [OF absent, of env_ok None None] absent
  show ?thesis by (simp add: paused_state_def init_state_def)
qed

section \<open>Cleanup when a session ends (C7)\<close>

text \<open>
  Claim C7, as the code has it. A \<^verbatim>\<open>detachDebugger\<close> on an attached tab whose
  detach call the debugger accepts, and every detach event, remove the session of that
  tab only and empty both \<^verbatim>\<open>pendingRequests\<close> and \<^verbatim>\<open>requestData\<close>: the sessions
  of the other tabs stay, the stored exchanges of every tab are discarded.
\<close>

theorem session_teardown_clears_whole_store:
  "(attachedTabs s tabId \<noteq> None \<and> debugger e (Detach tabId) = None \<longrightarrow>
      pendingRequests (detachDebugger e tabId s) = Map.empty
      \<and> requestData (detachDebugger e tabId s) = Map.empty
      \<and> attachedTabs (detachDebugger e tabId s) = (attachedTabs s)(tabId := None))
   \<and> pendingRequests (onDetach e tabId reason s) = Map.empty
   \<and> requestData (onDetach e tabId reason s) = Map.empty
   \<and> attachedTabs (onDetach e tabId reason s) = (attachedTabs s)(tabId := None)"
  by (auto simp: maps_onDetach teardown_detachDebugger)

text \<open>
  The theorem with tabs 1 and 2 attached and tab 1 detached.
\<close>

theorem session_teardown_clears_whole_store_witness:
  "attachedTabs two_tabs_state 1 \<noteq> None \<and> debugger env_ok (Detach 1) = None
   \<and> pendingRequests (detachDebugger env_ok 1 two_tabs_state) = Map.empty
   \<and> attachedTabs (detachDebugger env_ok 1 two_tabs_state) 1 = None
   \<and> attachedTabs (detachDebugger env_ok 1 two_tabs_state) 2
       = Some \<lparr>td_port = 8, td_target = 2\<rparr>
   \<and> pendingRequests (onDetach env_ok 1 ''target_closed'' two_tabs_state) = Map.empty"
proof -
  have attached: "attachedTabs two_tabs_state 1 \<noteq> None"
    and accepted: "debugger env_ok (Detach 1) = None"
    and other: "attachedTabs two_tabs_state 2 = Some \<lparr>td_port = 8, td_target = 2\<rparr>"
    by (simp_all add: two_tabs_state_def init_state_def env_ok_def)
  from session_teardown_clears_whole_store [of two_tabs_state 1 env_ok "''target_closed''"]
    attached accepted other
  show ?thesis by simp
qed

text \<open>
  Claim C7 as stated fails: detaching tab 1 discards the exchange \<^verbatim>\<open>r2\<close> of tab 2,
  which stays attached.
\<close>

theorem detach_discards_exchange_of_other_tab:
  "attachedTabs two_tabs_state 2 = Some \<lparr>td_port = 8, td_target = 2\<rparr>
   \<and> pendingRequests two_tabs_state ''r2'' = Some \<lparr>p_tabId = 2, p_params = other_pause\<rparr>
   \<and> attachedTabs (detachDebugger env_ok 1 two_tabs_state) 2
       = Some \<lparr>td_port = 8, td_target = 2\<rparr>
   \<and> pendingRequests (detachDebugger env_ok 1 two_tabs_state) ''r2'' = None"
  by (simp add: two_tabs_detach_1) (simp add: two_tabs_state_def init_state_def)

section \<open>Header object to array and back (C8)\<close>

text \<open>
  Claim C8, as the code has it. For a header object with distinct names, the array that
  \<^verbatim>\<open>handleRequestPaused\<close> emits for it, read back by the loop that builds
  \<^verbatim>\<open>headersObj\<close> from an array, gives exactly the pairs of the object whose name is
  not empty and not \<^verbatim>\<open>__proto__\<close> and whose value is not \<^verbatim>\<open>undefined\<close>. An object
  with only such pairs comes back with the same pairs.
\<close>

theorem header_roundtrip_keeps_wellformed_pairs:
  assumes "distinct (map fst obj)"
  shows "set (fst (normalize_headers
                (Some (HeadersArray (snd (normalize_headers (Some (HeadersObject obj))))))))
           = {(k, v). (k, v) \<in> set obj \<and> k \<noteq> [] \<and> k \<noteq> js ''__proto__'' \<and> v \<noteq> None}
       \<and> ((\<forall>(k, v) \<in> set obj. k \<noteq> [] \<and> k \<noteq> js ''__proto__'' \<and> v \<noteq> None) \<longrightarrow>
            set (fst (normalize_headers
                (Some (HeadersArray (snd (normalize_headers (Some (HeadersObject obj))))))))
              = set obj)"
  using headers_roundtrip [OF assms] by (auto simp: normalize_headers_def)

text \<open>
  The theorem at the object \<^verbatim>\<open>{Accept: "*/*", X: "Y"}\<close>.
\<close>

theorem header_roundtrip_keeps_wellformed_pairs_witness:
  "distinct (map fst [(js ''Accept'', Some (js ''*/*'')), (js ''X'', Some (js ''Y''))])
   \<and> set (fst (normalize_headers (Some (HeadersArray (snd (normalize_headers
        (Some (HeadersObject [(js ''Accept'', Some (js ''*/*'')), (js ''X'', Some (js ''Y''))]))))))))
       = set [(js ''Accept'', Some (js ''*/*'')), (js ''X'', Some (js ''Y''))]"
proof -
  have d: "distinct (map fst [(js ''Accept'', Some (js ''*/*'')), (js ''X'', Some (js ''Y''))])"
    by (simp add: js_def)
  have wellformed: "\<forall>(k, v) \<in> set [(js ''Accept'', Some (js ''*/*'')), (js ''X'', Some (js ''Y''))].
      k \<noteq> [] \<and> k \<noteq> js ''__proto__'' \<and> v \<noteq> None"
    by (simp add: js_def)
  from header_roundtrip_keeps_wellformed_pairs [OF d] wellformed d
  show ?thesis by blast
qed

text \<open>
  Claim C8 as stated fails: the object \<^verbatim>\<open>{"": "v"}\<close> becomes the array
  \<^verbatim>\<open>[{name: "", value: "v"}]\<close>, and the array becomes the empty object, because the
  loop skips an entry whose name is falsy.
\<close>

theorem empty_header_name_lost_in_roundtrip:
  "fst (normalize_headers (Some (HeadersArray (snd (normalize_headers
        (Some (HeadersObject [([], Some (js ''v''))]))))))) = []
   \<and> snd (normalize_headers (Some (HeadersObject [([], Some (js ''v''))])))
       = [\<lparr>hname = Some [], hvalue = Some (js ''v'')\<rparr>]"
  by (simp add: normalize_headers_def headersArray_of_object_def headersObj_of_array_def
        headersObj_step_def truthy_def)

section \<open>Attaching to a tab that is attached (C9)\<close>

text \<open>
  Claim C9. When the tab has an entry in \<^verbatim>\<open>attachedTabs\<close>, \<^verbatim>\<open>attachDebugger\<close>
  posts \<^verbatim>\<open>DEBUGGER_ATTACHED\<close> to the calling port and nothing else: it makes no
  debugger call, writes nothing to the console, posts no error and leaves the two
  exchange maps alone. The registry gets no new entry: it is unchanged when the port
  takes the message, and loses the entry of this tab when the port throws.
\<close>

theorem attach_when_already_attached:
  assumes "attachedTabs s tabId = Some tabData"
  shows "posted (attachDebugger e tabId p s) = posted s @ [(p, DEBUGGER_ATTACHED tabId)]
     \<and> sent (attachDebugger e tabId p s) = sent s
     \<and> console (attachDebugger e tabId p s) = console s
     \<and> pendingRequests (attachDebugger e tabId p s) = pendingRequests s
     \<and> requestData (attachDebugger e tabId p s) = requestData s
     \<and> attachedTabs (attachDebugger e tabId p s) =
         (if postMessage e p = None then attachedTabs s else (attachedTabs s)(tabId := None))"
  using assms by (simp add: attachDebugger_def post_def split: option.splits)

text \<open>
  The theorem at tab 1 of the example store, asked again from port 9.
\<close>

theorem attach_when_already_attached_witness:
  "attachedTabs (paused_state request_pause) 1 = Some \<lparr>td_port = 7, td_target = 1\<rparr>
   \<and> posted (attachDebugger env_ok 1 9 (paused_state request_pause)) = [(9, DEBUGGER_ATTACHED 1)]
   \<and> sent (attachDebugger env_ok 1 9 (paused_state request_pause)) = []
   \<and> attachedTabs (attachDebugger env_ok 1 9 (paused_state request_pause))
       = attachedTabs (paused_state request_pause)"
proof -
  have a: "attachedTabs (paused_state request_pause) 1 = Some \<lparr>td_port = 7, td_target = 1\<rparr>"
    by (simp add: paused_state_def init_state_def)
  from attach_when_already_attached [OF a, of env_ok 9] a
  show ?thesis by (simp add: paused_state_def init_state_def env_ok_def)
qed

section \<open>Response metadata and the fulfill payload (C10)\<close>

text \<open>
  Claim C10. \<^verbatim>\<open>handleResponseReceived\<close> changes nothing but \<^verbatim>\<open>requestData\<close>, and
  the listener that calls it leaves \<^verbatim>\<open>pendingRequests\<close> as it was. So the debugger
  calls of a later \<^verbatim>\<open>continueResponse\<close>, the fulfill command among them, and the
  store it leaves are the same whether or not the event was handled first.
\<close>

theorem responseReceived_leaves_fulfill_payload:
  "handleResponseReceived tabId params p s =
     s\<lparr>requestData := requestData (handleResponseReceived tabId params p s)\<rparr>
   \<and> pendingRequests (onEvent e now tabId (Network_responseReceived params) s) = pendingRequests s
   \<and> sent (continueResponse e rid mods (handleResponseReceived tabId params p s))
       = sent (continueResponse e rid mods s)
   \<and> pendingRequests (continueResponse e rid mods (handleResponseReceived tabId params p s))
       = pendingRequests (continueResponse e rid mods s)"
proof -
  let ?s' = "handleResponseReceived tabId params p s"
  have frame: "?s' = s\<lparr>requestData := requestData ?s'\<rparr>"
    by (rule handleResponseReceived_frame)
  have "continueResponse e rid mods ?s' =
          (continueResponse e rid mods s)\<lparr>requestData := requestData ?s'\<rparr>"
    by (subst frame) (rule continueResponse_requestData)
  then have "sent (continueResponse e rid mods ?s') = sent (continueResponse e rid mods s)"
    and "pendingRequests (continueResponse e rid mods ?s')
          = pendingRequests (continueResponse e rid mods s)"
    by simp_all
  moreover have "pendingRequests (onEvent e now tabId (Network_responseReceived params) s)
      = pendingRequests s"
    by (simp add: onEvent_def pendingRequests_handleResponseReceived split: option.splits)
  ultimately show ?thesis using frame by simp
qed

text \<open>
  The theorem at an event for \<^verbatim>\<open>r1\<close> that does change \<^verbatim>\<open>requestData\<close>.
\<close>

theorem responseReceived_leaves_fulfill_payload_witness:
  "requestData (handleResponseReceived 1 ok_response 7 tracked_state) ''r1''
     \<noteq> requestData tracked_state ''r1''
   \<and> pendingRequests (handleResponseReceived 1 ok_response 7 tracked_state)
       = pendingRequests tracked_state
   \<and> sent (continueResponse env_ok ''r1'' None (handleResponseReceived 1 ok_response 7 tracked_state))
       = sent (continueResponse env_ok ''r1'' None tracked_state)
   \<and> sent (continueResponse env_ok ''r1'' None tracked_state)
       = [SendCommand 1 (Fetch_fulfillRequest
            \<lparr>fc_requestId = ''r1'', fc_responseCode = Some 200, fc_responseHeaders = Some [],
             fc_body = None\<rparr>)]"
proof -
  have changed: "requestData (handleResponseReceived 1 ok_response 7 tracked_state) ''r1''
     \<noteq> requestData tracked_state ''r1''"
    by (simp add: handleResponseReceived_def tracked_state_def ok_response_def)
  have stored: "pendingRequests tracked_state ''r1''
     = Some \<lparr>p_tabId = 1, p_params = request_pause\<rparr>"
    using pending_paused_state [of request_pause]
    by (simp add: tracked_state_def requestId_examples)
  have payload: "sent (continueResponse env_ok ''r1'' None tracked_state)
       = [SendCommand 1 (Fetch_fulfillRequest
            \<lparr>fc_requestId = ''r1'', fc_responseCode = Some 200, fc_responseHeaders = Some [],
             fc_body = None\<rparr>)]"
    using sent_continueResponse [OF stored, of env_ok None]
    by (simp add: fulfill_command_of_None request_pause_def)
       (simp add: tracked_state_def sent_paused_state)
  from responseReceived_leaves_fulfill_payload [of 1 ok_response 7 tracked_state env_ok 0 "''r1''" None]
  have "pendingRequests (handleResponseReceived 1 ok_response 7 tracked_state)
          = pendingRequests tracked_state"
    and "sent (continueResponse env_ok ''r1'' None (handleResponseReceived 1 ok_response 7 tracked_state))
          = sent (continueResponse env_ok ''r1'' None tracked_state)"
    by (simp_all add: pendingRequests_handleResponseReceived)
  with changed payload show ?thesis by simp
qed

end
